theory Spec2Isabelle
  imports Complex_Main "HOL-Library.AList"
begin

section \<open>Numbers, errors and library functions\<close>

text \<open>
  Python floats are read as real numbers throughout: rounding error, overflow and the
  signed zero are outside the model. Where the planners rely on the special value
  \<open>inf\<close> (the tree planner's best cost), a separate type carries it.

  Exceptions of the Python code are values of \<open>py_error\<close>; a function that can raise
  returns \<open>py_error + 'a\<close>.
\<close>

datatype py_error = ZeroDivisionError | IndexError | KeyError | ValueError

text \<open>
  \<^verbatim>\<open>math.atan2(y, x)\<close> of the standard library: the angle of the point \<open>(x, y)\<close>,
  in \<open>(-pi, pi]\<close>, and \<open>0\<close> at the origin.
\<close>

definition atan2 :: "real \<Rightarrow> real \<Rightarrow> real" where
  "atan2 y x =
     (if 0 < x then arctan (y / x)
      else if x < 0 then (if 0 \<le> y then arctan (y / x) + pi else arctan (y / x) - pi)
      else if 0 < y then pi / 2
      else if y < 0 then - (pi / 2)
      else 0)"

text \<open>
  Python 3's \<^verbatim>\<open>round(x)\<close> with one argument: the nearest integer, a tie going to
  the even neighbour.
\<close>

definition py_round :: "real \<Rightarrow> int" where
  "py_round x =
     (let f = \<lfloor>x\<rfloor>; d = x - of_int f
      in if d < 1 / 2 then f
         else if 1 / 2 < d then f + 1
         else if even f then f else f + 1)"

section \<open>Hybrid grid search planner: poses, nodes, motion model\<close>

text \<open>
  \<^verbatim>\<open>Pose\<close> comes from \<^verbatim>\<open>route_planner.geometry\<close>; the planner reads and writes its
  three fields \<^verbatim>\<open>x\<close>, \<^verbatim>\<open>y\<close>, \<^verbatim>\<open>theta\<close>.
\<close>

record pose =
  px :: real
  py :: real
  ptheta :: real

text \<open>
  \<^verbatim>\<open>class Node\<close> of \<^verbatim>\<open>hybrid_a_star_route_planner.py\<close>. The constructor computes
  the two discrete coordinates from the pose.
\<close>

record hnode =
  hpose :: pose
  discrete_x :: int
  discrete_y :: int
  hcost :: real
  steering :: real
  parent_node_index :: int

definition Node :: "pose \<Rightarrow> real \<Rightarrow> real \<Rightarrow> int \<Rightarrow> hnode" where
  "Node p c s parent =
     \<lparr>hpose = p, discrete_x = py_round (px p), discrete_y = py_round (py p),
      hcost = c, steering = s, parent_node_index = parent\<rparr>"

text \<open>
  \<^verbatim>\<open>HybridAStarRoutePlanner.change_radians_range\<close> at a finite angle, in exact
  arithmetic: the rounding of the three library calls is not part of this value, and
  nothing that depends on the last bit of the result is derived from it. The function
  on all floats, infinities and nan included, is \<open>change_radians_range_float\<close> below.
\<close>

definition change_radians_range :: "real \<Rightarrow> real" where
  "change_radians_range angle = atan2 (sin angle) (cos angle)"

text \<open>The motion model set up by \<^verbatim>\<open>HybridAStarRoutePlanner.__init__\<close>.\<close>

definition wheelbase :: real where
  "wheelbase = 27 / 10"

definition radians :: "real \<Rightarrow> real" where
  "radians d = d * pi / 180"

definition steering_inputs :: "real list" where
  "steering_inputs = map radians [-40, -20, -10, 0, 10, 20, 40]"

definition chord_lengths :: "real list" where
  "chord_lengths = [2, 1]"

text \<open>\<^verbatim>\<open>HybridAStarRoutePlanner.calculate_next_node\<close>\<close>

definition calculate_next_node :: "hnode \<Rightarrow> int \<Rightarrow> real \<Rightarrow> real \<Rightarrow> hnode" where
  "calculate_next_node current current_node_index chord_length steer =
     (let theta = change_radians_range
                    (ptheta (hpose current) + chord_length * tan steer / wheelbase);
          x = px (hpose current) + chord_length * cos theta;
          y = py (hpose current) + chord_length * sin theta
      in Node \<lparr>px = x, py = y, ptheta = theta\<rparr>
              (hcost current + chord_length) steer current_node_index)"

section \<open>The parking lot map\<close>

text \<open>
  \<^verbatim>\<open>class ParkingLot\<close> of \<^verbatim>\<open>space/parking_lot.py\<close>: the bounds, the occupied cells
  and the boundary segments. The planners and the controller only query it.
\<close>

type_synonym cell = "int \<times> int"

record parking_lot =
  lot_width :: int
  lot_height :: int
  obstacles :: "cell list"
  obstacle_lines :: "(cell \<times> cell) list"

text \<open>\<^verbatim>\<open>range(a, b)\<close> over Python integers.\<close>

definition py_range :: "int \<Rightarrow> int \<Rightarrow> int list" where
  "py_range a b = [a..b - 1]"

text \<open>\<^verbatim>\<open>ParkingLot.create_outer_walls\<close>, on the lists built so far.\<close>

definition create_outer_walls :: "parking_lot \<Rightarrow> parking_lot" where
  "create_outer_walls m =
     m\<lparr>obstacles := obstacles m
          @ concat (map (\<lambda>x. [(x, 0), (x, lot_height m)]) (py_range 0 (lot_width m + 1)))
          @ concat (map (\<lambda>y. [(0, y), (lot_width m, y)]) (py_range 1 (lot_height m))),
        obstacle_lines := obstacle_lines m @
          [((0, 0), (0, lot_height m)),
           ((0, 0), (lot_width m, 0)),
           ((lot_width m, 0), (lot_width m, lot_height m)),
           ((0, lot_height m), (lot_width m, lot_height m))]\<rparr>"

text \<open>\<^verbatim>\<open>ParkingLot.create_horizontal_lines\<close>\<close>

definition create_horizontal_lines :: "parking_lot \<Rightarrow> parking_lot" where
  "create_horizontal_lines m =
     m\<lparr>obstacles := obstacles m
          @ concat (map (\<lambda>x. [(x, 17), (x, 40)]) (py_range 11 (lot_width m - 10))),
        obstacle_lines := obstacle_lines m @
          [((11, 17), (lot_width m - 10, 17)),
           ((11, 40), (lot_width m - 10, 40))]\<rparr>"

text \<open>
  \<^verbatim>\<open>ParkingLot.create_vertical_lines\<close>: for each of the sixteen columns, the cells of
  its six rows and then its three segments.
\<close>

definition vertical_cells :: "int \<Rightarrow> cell list" where
  "vertical_cells x =
     concat (map (\<lambda>y. [(x * 4 + 11, y + 11), (x * 4 + 11, y + 18), (x * 4 + 11, y + 34),
                         (x * 4 + 11, y + 41), (x * 4 + 11, y + 57)]) (py_range 0 6))"

definition vertical_segments :: "int \<Rightarrow> (cell \<times> cell) list" where
  "vertical_segments x =
     [((x * 4 + 11, 11), (x * 4 + 11, 24)),
      ((x * 4 + 11, 34), (x * 4 + 11, 47)),
      ((x * 4 + 11, 57), (x * 4 + 11, 63))]"

definition create_vertical_lines :: "parking_lot \<Rightarrow> parking_lot" where
  "create_vertical_lines m =
     m\<lparr>obstacles := obstacles m @ concat (map vertical_cells (py_range 0 16)),
        obstacle_lines := obstacle_lines m @ concat (map vertical_segments (py_range 0 16))\<rparr>"

text \<open>\<^verbatim>\<open>ParkingLot.__init__\<close>\<close>

definition ParkingLot :: parking_lot where
  "ParkingLot =
     create_vertical_lines (create_horizontal_lines (create_outer_walls
       \<lparr>lot_width = 82, lot_height = 63, obstacles = [], obstacle_lines = []\<rparr>))"

text \<open>\<^verbatim>\<open>ParkingLot.get_grid_index\<close>\<close>

definition get_grid_index :: "parking_lot \<Rightarrow> int \<Rightarrow> int \<Rightarrow> int" where
  "get_grid_index m x y = x + y * lot_width m"

text \<open>\<^verbatim>\<open>ParkingLot.ccw\<close>\<close>

definition ccw :: "cell \<Rightarrow> cell \<Rightarrow> cell \<Rightarrow> bool" where
  "ccw A B C = ((snd C - snd A) * (fst B - fst A) > (snd B - snd A) * (fst C - fst A))"

text \<open>\<^verbatim>\<open>ParkingLot.intersect\<close>\<close>

definition intersect :: "cell \<times> cell \<Rightarrow> cell \<times> cell \<Rightarrow> bool" where
  "intersect line1 line2 =
     (let A = fst line1; B = snd line1; C = fst line2; D = snd line2
      in ccw A C D \<noteq> ccw B C D \<and> ccw A B C \<noteq> ccw A B D)"

text \<open>\<^verbatim>\<open>ParkingLot.is_not_crossed_obstacle\<close>\<close>

definition is_not_crossed_obstacle :: "parking_lot \<Rightarrow> cell \<Rightarrow> cell \<Rightarrow> bool" where
  "is_not_crossed_obstacle m previous_node current_node =
     (let is_cross_line =
            list_ex (\<lambda>obstacle_line. intersect obstacle_line (previous_node, current_node))
                    (obstacle_lines m)
      in current_node \<notin> set (obstacles m)
         \<and> 0 < fst current_node \<and> fst current_node < lot_width m
         \<and> 0 < snd current_node \<and> snd current_node < lot_height m
         \<and> \<not> is_cross_line)"

section \<open>Informed sampling tree planner\<close>

subsection \<open>Floats with infinities\<close>

text \<open>
  The tree planner initialises its best cost to \<^verbatim>\<open>float("inf")\<close> and computes with
  it. \<open>pyfloat\<close> adds the special values to the reals, with the arithmetic of IEEE 754
  on them. Division follows numpy (the divisor \<^verbatim>\<open>c_min\<close> is a numpy scalar, the
  result of \<^verbatim>\<open>np.linalg.norm\<close>): dividing by zero gives an infinity or nan and
  raises nothing.
\<close>

datatype pyfloat = Fin real | PInf | NInf | NaN

fun np_divide :: "pyfloat \<Rightarrow> real \<Rightarrow> pyfloat" where
  "np_divide (Fin a) c =
     (if c \<noteq> 0 then Fin (a / c) else if 0 < a then PInf else if a < 0 then NInf else NaN)"
| "np_divide PInf c = (if 0 \<le> c then PInf else NInf)"
| "np_divide NInf c = (if 0 \<le> c then NInf else PInf)"
| "np_divide NaN c = NaN"

fun np_multiply :: "real \<Rightarrow> pyfloat \<Rightarrow> pyfloat" where
  "np_multiply r (Fin a) = Fin (r * a)"
| "np_multiply r PInf = (if 0 < r then PInf else if r < 0 then NInf else NaN)"
| "np_multiply r NInf = (if 0 < r then NInf else if r < 0 then PInf else NaN)"
| "np_multiply r NaN = NaN"

text \<open>\<open>d <= r\<close> and \<open>d < r\<close> for a finite \<open>d\<close>; every comparison with nan is false.\<close>

fun float_le :: "real \<Rightarrow> pyfloat \<Rightarrow> bool" where
  "float_le d (Fin r) = (d \<le> r)"
| "float_le d PInf = True"
| "float_le d NInf = False"
| "float_le d NaN = False"

fun float_less :: "real \<Rightarrow> pyfloat \<Rightarrow> bool" where
  "float_less d (Fin r) = (d < r)"
| "float_less d PInf = True"
| "float_less d NInf = False"
| "float_less d NaN = False"


text \<open>\<^verbatim>\<open>math.hypot\<close>\<close>

definition hypot :: "real \<Rightarrow> real \<Rightarrow> real" where
  "hypot a b = sqrt (a\<^sup>2 + b\<^sup>2)"

subsection \<open>Nodes, the planner object and the inherited methods\<close>

text \<open>
  Modelled from the spec: the class \<^verbatim>\<open>Node\<close> of \<^verbatim>\<open>route_planner.geometry\<close>, which
  is not among the sources. The planner builds it as \<^verbatim>\<open>Node(x, y, 0.0)\<close> and uses
  its position, its accumulated cost and its parent back-reference, null for a node
  without parent. A parent is a handle into the tree's node list, as the spec's design
  notes have it.
\<close>

record tnode =
  nx :: real
  ny :: real
  ncost :: real
  nparent :: "nat option"

definition geometry_Node :: "real \<Rightarrow> real \<Rightarrow> real \<Rightarrow> tnode" where
  "geometry_Node x y c = \<lparr>nx = x, ny = y, ncost = c, nparent = None\<rparr>"

text \<open>
  \<^verbatim>\<open>self.c_best\<close> holds \<^verbatim>\<open>float("inf")\<close> until the goal is connected and the goal
  node's cost afterwards.
\<close>

datatype best_cost = Infinite | Finite real

fun as_float :: "best_cost \<Rightarrow> pyfloat" where
  "as_float Infinite = PInf"
| "as_float (Finite c) = Fin c"

type_synonym region = "real \<times> real \<times> real \<times> real \<times> real"

text \<open>
  The methods \<^verbatim>\<open>InformedTRRTStar\<close> inherits from \<^verbatim>\<open>InformedRRTStar\<close>, and
  \<^verbatim>\<open>ThetaStar.find_path\<close>: classes of the repository that are not among the
  sources. They are parameters of the model.
  \<^item> \<open>steer ns i to ext\<close>: the new node \<^verbatim>\<open>self.steer(from_node, to_node, extend_length)\<close>,
    where \<open>from_node\<close> is the node \<open>i\<close> of the tree \<open>ns\<close>;
  \<^item> \<open>rewire ns i near k\<close>: the node \<open>k\<close> of the tree after
    \<^verbatim>\<open>self.rewire(new_node, near_nodes)\<close>, where \<open>new_node\<close> is the node \<open>i\<close> of the tree
    \<open>ns\<close> and \<open>near\<close> are the handles of the near nodes;
  \<^item> \<open>sample_unit_ball U p\<close>: the point drawn and the next position in the stream \<open>U\<close> of
    random numbers.
\<close>

record rrt_base =
  steer :: "tnode list \<Rightarrow> nat \<Rightarrow> tnode \<Rightarrow> real option \<Rightarrow> tnode"
  is_collision_free :: "tnode \<Rightarrow> tnode \<Rightarrow> bool"
  get_nearest_node_index :: "tnode list \<Rightarrow> tnode \<Rightarrow> nat"
  rewire :: "tnode list \<Rightarrow> nat \<Rightarrow> nat list \<Rightarrow> nat \<Rightarrow> tnode"
  generate_final_course :: "tnode list \<Rightarrow> tnode \<Rightarrow> real list \<times> real list"
  sample_unit_ball :: "(nat \<Rightarrow> real) \<Rightarrow> nat \<Rightarrow> (real \<times> real) \<times> nat"
  is_within_map_instance :: "tnode \<Rightarrow> bool"
  rotation_to_world_frame :: "tnode \<Rightarrow> tnode \<Rightarrow> (real \<times> real) \<times> (real \<times> real)"
  find_path :: "tnode \<Rightarrow> tnode \<Rightarrow> real list \<times> real list"

text \<open>The fields of an \<^verbatim>\<open>InformedTRRTStar\<close> object.\<close>

record trrt =
  start :: tnode
  goal :: tnode
  map_instance :: parking_lot
  max_iter :: int
  search_radius :: real
  nodes :: "tnode list"
  c_best :: best_cost
  x_center :: "real \<times> real"
  c_min :: real
  C :: "(real \<times> real) \<times> (real \<times> real)"

text \<open>\<^verbatim>\<open>InformedTRRTStar.__init__\<close>\<close>

definition InformedTRRTStar ::
  "rrt_base \<Rightarrow> pose \<Rightarrow> pose \<Rightarrow> parking_lot \<Rightarrow> int \<Rightarrow> real \<Rightarrow> trrt" where
  "InformedTRRTStar B start_pose goal_pose m iters radius =
     (let s = geometry_Node (px start_pose) (py start_pose) 0;
          g = geometry_Node (px goal_pose) (py goal_pose) 0
      in \<lparr>start = s, goal = g, map_instance = m, max_iter = iters, search_radius = radius,
          nodes = [s], c_best = Infinite,
          x_center = ((nx s + nx g) / 2, (ny s + ny g) / 2),
          c_min = sqrt ((nx s - nx g)\<^sup>2 + (ny s - ny g)\<^sup>2),
          C = rotation_to_world_frame B s g\<rparr>)"

subsection \<open>The corridor around the seed path\<close>

text \<open>
  \<^verbatim>\<open>InformedTRRTStar.narrow_sample\<close>. The loop runs over the indices of \<^verbatim>\<open>x_path\<close>;
  reading \<^verbatim>\<open>y_path\<close> beyond its end raises.
\<close>

fun narrow_segments :: "real \<Rightarrow> real list \<Rightarrow> real list \<Rightarrow> nat list \<Rightarrow> py_error + region list" where
  "narrow_segments margin x_path y_path [] = Inr []"
| "narrow_segments margin x_path y_path (i # rest) =
     (if Suc i < length y_path
      then (case narrow_segments margin x_path y_path rest of
              Inl e \<Rightarrow> Inl e
            | Inr path_region \<Rightarrow>
                Inr ((x_path ! i, y_path ! i, x_path ! Suc i, y_path ! Suc i, margin)
                     # path_region))
      else Inl IndexError)"

definition narrow_sample :: "trrt \<Rightarrow> real list \<Rightarrow> real list \<Rightarrow> py_error + region list" where
  "narrow_sample P x_path y_path =
     narrow_segments (search_radius P / 2) x_path y_path [0..<length x_path - 1]"

text \<open>
  \<^verbatim>\<open>InformedTRRTStar.is_within_region\<close>. The distance is a quotient of Python floats:
  a zero divisor raises \<^verbatim>\<open>ZeroDivisionError\<close>.
\<close>

fun is_within_region :: "tnode \<Rightarrow> region list \<Rightarrow> py_error + bool" where
  "is_within_region node [] = Inr False"
| "is_within_region node ((x1, y1, x2, y2, margin) # rest) =
     (if hypot (y2 - y1) (x2 - x1) = 0 then Inl ZeroDivisionError
      else if \<bar>(y2 - y1) * nx node - (x2 - x1) * ny node + x2 * y1 - y2 * x1\<bar>
                / hypot (y2 - y1) (x2 - x1) \<le> margin
      then Inr True
      else is_within_region node rest)"

subsection \<open>Sampling\<close>

text \<open>
  The random numbers come from a stream \<open>U\<close> of draws of \<^verbatim>\<open>random.random()\<close>, read
  from a position that each draw advances. The rejection loops are \<^verbatim>\<open>while True\<close>
  loops: they get fuel, and \<open>None\<close> is a loop that has not returned within it.
\<close>

definition uniform :: "(nat \<Rightarrow> real) \<Rightarrow> nat \<Rightarrow> real \<Rightarrow> real \<Rightarrow> real \<times> nat" where
  "uniform U p a b = (a + (b - a) * U p, Suc p)"

text \<open>\<^verbatim>\<open>InformedTRRTStar.get_random_node\<close>\<close>

fun get_random_node ::
  "nat \<Rightarrow> (nat \<Rightarrow> real) \<Rightarrow> trrt \<Rightarrow> region list option \<Rightarrow> nat \<Rightarrow> (py_error + tnode \<times> nat) option" where
  "get_random_node 0 U P path_region p = None"
| "get_random_node (Suc fuel) U P path_region p =
     (let (x, p1) = uniform U p 0 (of_int (lot_width (map_instance P)));
          (y, p2) = uniform U p1 0 (of_int (lot_height (map_instance P)));
          node = geometry_Node x y 0
      in case path_region of
           None \<Rightarrow> Some (Inr (node, p2))
         | Some r \<Rightarrow>
             (case is_within_region node r of
                Inl e \<Rightarrow> Some (Inl e)
              | Inr True \<Rightarrow> Some (Inr (node, p2))
              | Inr False \<Rightarrow> get_random_node fuel U P path_region p2))"

text \<open>
  The informed branch of \<^verbatim>\<open>InformedTRRTStar.sample\<close>, for a finite best cost \<open>cb\<close>:
  a point of the unit ball, mapped to the ellipse. \<^verbatim>\<open>math.sqrt\<close> raises on a negative
  argument.
\<close>

fun sample_ellipse ::
  "nat \<Rightarrow> rrt_base \<Rightarrow> (nat \<Rightarrow> real) \<Rightarrow> trrt \<Rightarrow> real \<Rightarrow> region list option \<Rightarrow> nat
     \<Rightarrow> (py_error + tnode \<times> nat) option" where
  "sample_ellipse 0 B U P cb path_region p = None"
| "sample_ellipse (Suc fuel) B U P cb path_region p =
     (let (x_ball, p1) = sample_unit_ball B U p
      in if cb\<^sup>2 - (c_min P)\<^sup>2 < 0 then Some (Inl ValueError)
         else
           let r1 = cb / 2; r2 = sqrt (cb\<^sup>2 - (c_min P)\<^sup>2) / 2;
               ((c11, c12), (c21, c22)) = C P;
               x_rand = (c11 * r1 * fst x_ball + c12 * r2 * snd x_ball + fst (x_center P),
                         c21 * r1 * fst x_ball + c22 * r2 * snd x_ball + snd (x_center P));
               x_rand_node = geometry_Node (fst x_rand) (snd x_rand) 0
           in if is_within_map_instance B x_rand_node
              then (case path_region of
                      None \<Rightarrow> Some (Inr (x_rand_node, p1))
                    | Some r \<Rightarrow>
                        (case is_within_region x_rand_node r of
                           Inl e \<Rightarrow> Some (Inl e)
                         | Inr True \<Rightarrow> Some (Inr (x_rand_node, p1))
                         | Inr False \<Rightarrow> sample_ellipse fuel B U P cb path_region p1))
              else sample_ellipse fuel B U P cb path_region p1)"

text \<open>\<^verbatim>\<open>InformedTRRTStar.sample\<close>\<close>

definition sample ::
  "nat \<Rightarrow> rrt_base \<Rightarrow> (nat \<Rightarrow> real) \<Rightarrow> trrt \<Rightarrow> region list option \<Rightarrow> nat
     \<Rightarrow> (py_error + tnode \<times> nat) option" where
  "sample fuel B U P path_region p =
     (case c_best P of
        Finite cb \<Rightarrow> sample_ellipse fuel B U P cb path_region p
      | Infinite \<Rightarrow> get_random_node fuel U P path_region p)"

subsection \<open>Growing the tree\<close>

text \<open>\<^verbatim>\<open>InformedTRRTStar.heuristic\<close>\<close>

definition heuristic :: "tnode \<Rightarrow> tnode \<Rightarrow> real" where
  "heuristic node g = hypot (nx g - nx node) (ny g - ny node)"

text \<open>
  \<^verbatim>\<open>InformedTRRTStar.search_best_parent\<close>: the loop over the near nodes, given by
  their handles, with the best parent and the least cost found so far.
\<close>

fun search_best_parent_loop ::
  "rrt_base \<Rightarrow> trrt \<Rightarrow> tnode \<Rightarrow> nat list \<Rightarrow> nat option \<Rightarrow> pyfloat \<Rightarrow> nat option" where
  "search_best_parent_loop B P new_node [] best_parent min_cost = best_parent"
| "search_best_parent_loop B P new_node (i # rest) best_parent min_cost =
     (let near_node = nodes P ! i
      in if is_collision_free B near_node new_node
         then let heuristic_cost =
                    ncost near_node
                    + hypot (nx new_node - nx near_node) (ny new_node - ny near_node)
                    + 15 / 10 * heuristic new_node (goal P)
              in if float_less heuristic_cost min_cost
                 then search_best_parent_loop B P new_node rest (Some i) (Fin heuristic_cost)
                 else search_best_parent_loop B P new_node rest best_parent min_cost
         else search_best_parent_loop B P new_node rest best_parent min_cost)"

definition search_best_parent :: "rrt_base \<Rightarrow> trrt \<Rightarrow> tnode \<Rightarrow> nat list \<Rightarrow> nat option" where
  "search_best_parent B P new_node near = search_best_parent_loop B P new_node near None PInf"

text \<open>
  The two lines of \<^verbatim>\<open>search_route\<close> that compute the adaptive radius and collect the
  near nodes, as handles into the tree.
\<close>

definition adaptive_radius :: "trrt \<Rightarrow> pyfloat" where
  "adaptive_radius P = np_multiply (search_radius P) (np_divide (as_float (c_best P)) (c_min P))"

definition near_nodes :: "trrt \<Rightarrow> tnode \<Rightarrow> nat list" where
  "near_nodes P new_node =
     filter (\<lambda>i. float_le (hypot (nx (nodes P ! i) - nx new_node) (ny (nodes P ! i) - ny new_node))
                           (adaptive_radius P))
            [0..<length (nodes P)]"

text \<open>
  One pass through the body of the loop of \<^verbatim>\<open>search_route\<close>: the planner and the
  position in the random stream afterwards, and whether the loop ends here
  (\<^verbatim>\<open>break\<close>).
\<close>

definition grow_step ::
  "nat \<Rightarrow> rrt_base \<Rightarrow> (nat \<Rightarrow> real) \<Rightarrow> region list \<Rightarrow> trrt \<Rightarrow> nat
     \<Rightarrow> (py_error + trrt \<times> nat \<times> bool) option" where
  "grow_step fuel B U path_region P p =
     (case sample fuel B U P (Some path_region) p of
        None \<Rightarrow> None
      | Some (Inl e) \<Rightarrow> Some (Inl e)
      | Some (Inr (rand_node, p')) \<Rightarrow>
          (let k = get_nearest_node_index B (nodes P) rand_node
           in if \<not> k < length (nodes P) then Some (Inl IndexError)
              else
                let nearest_node = nodes P ! k;
                    new_node = steer B (nodes P) k rand_node (Some (search_radius P))
                in if \<not> is_collision_free B nearest_node new_node then Some (Inr (P, p', False))
                   else
                     let near = near_nodes P new_node;
                         best_parent = search_best_parent B P new_node near;
                         new_node =
                           (case best_parent of
                              None \<Rightarrow> new_node
                            | Some b \<Rightarrow> (steer B (nodes P) b new_node None)\<lparr>nparent := Some b\<rparr>);
                         i = length (nodes P);
                         appended = nodes P @ [new_node];
                         rewired = map (rewire B appended i near) [0..<length appended];
                         new_node = rewired ! i
                     in if hypot (nx new_node - nx (goal P)) (ny new_node - ny (goal P))
                             \<le> search_radius P
                        then
                          let final_node = steer B rewired i (goal P) None
                          in if is_collision_free B new_node final_node
                             then
                               let g = final_node\<lparr>nparent := Some i\<rparr>
                               in Some (Inr (P\<lparr>goal := g, nodes := rewired @ [g],
                                               c_best := Finite (ncost g)\<rparr>, p', True))
                             else Some (Inr (P\<lparr>nodes := rewired\<rparr>, p', False))
                        else Some (Inr (P\<lparr>nodes := rewired\<rparr>, p', False))))"

text \<open>The loop \<^verbatim>\<open>for _ in range(self.max_iter)\<close>, with the number of passes left.\<close>

fun grow_loop ::
  "nat \<Rightarrow> nat \<Rightarrow> rrt_base \<Rightarrow> (nat \<Rightarrow> real) \<Rightarrow> region list \<Rightarrow> trrt \<Rightarrow> nat
     \<Rightarrow> (py_error + trrt \<times> nat) option" where
  "grow_loop 0 fuel B U path_region P p = Some (Inr (P, p))"
| "grow_loop (Suc n) fuel B U path_region P p =
     (case grow_step fuel B U path_region P p of
        None \<Rightarrow> None
      | Some (Inl e) \<Rightarrow> Some (Inl e)
      | Some (Inr (P', p', stop)) \<Rightarrow>
          if stop then Some (Inr (P', p')) else grow_loop n fuel B U path_region P' p')"

subsection \<open>Path smoothing\<close>

text \<open>
  The inner loop of \<^verbatim>\<open>InformedTRRTStar.smooth_path\<close>, over the candidates \<open>j\<close> from
  the end of the path down to \<open>i + 1\<close>: the first one that node \<open>i\<close> sees, if any.
\<close>

fun find_shortcut ::
  "rrt_base \<Rightarrow> real list \<Rightarrow> real list \<Rightarrow> nat \<Rightarrow> nat list \<Rightarrow> py_error + nat option" where
  "find_shortcut B path_x path_y i [] = Inr None"
| "find_shortcut B path_x path_y i (j # rest) =
     (if i < length path_y \<and> j < length path_y
      then if is_collision_free B (geometry_Node (path_x ! i) (path_y ! i) 0)
                                  (geometry_Node (path_x ! j) (path_y ! j) 0)
           then Inr (Some j)
           else find_shortcut B path_x path_y i rest
      else Inl IndexError)"

text \<open>
  The outer \<^verbatim>\<open>while\<close> loop of \<^verbatim>\<open>smooth_path\<close>. When the inner loop finds no
  candidate, nothing has changed and the test of the \<^verbatim>\<open>while\<close> is evaluated again.
  \<open>None\<close> is a loop that has not returned within its fuel.
\<close>

fun smooth_loop ::
  "nat \<Rightarrow> rrt_base \<Rightarrow> real list \<Rightarrow> real list \<Rightarrow> nat \<Rightarrow> real list \<Rightarrow> real list
     \<Rightarrow> (py_error + real list \<times> real list) option" where
  "smooth_loop 0 B path_x path_y i smooth_x smooth_y = None"
| "smooth_loop (Suc fuel) B path_x path_y i smooth_x smooth_y =
     (if Suc i < length path_x
      then (case find_shortcut B path_x path_y i (rev [Suc i..<length path_x]) of
              Inl e \<Rightarrow> Some (Inl e)
            | Inr None \<Rightarrow> smooth_loop fuel B path_x path_y i smooth_x smooth_y
            | Inr (Some j) \<Rightarrow>
                smooth_loop fuel B path_x path_y j (smooth_x @ [path_x ! j]) (smooth_y @ [path_y ! j]))
      else Some (Inr (smooth_x, smooth_y)))"

text \<open>\<^verbatim>\<open>InformedTRRTStar.smooth_path\<close>\<close>

definition smooth_path ::
  "nat \<Rightarrow> rrt_base \<Rightarrow> real list \<Rightarrow> real list \<Rightarrow> (py_error + real list \<times> real list) option" where
  "smooth_path fuel B path_x path_y =
     (case path_x of
        [] \<Rightarrow> Some (Inl IndexError)
      | x # _ \<Rightarrow>
          (case path_y of
             [] \<Rightarrow> Some (Inl IndexError)
           | y # _ \<Rightarrow> smooth_loop fuel B path_x path_y 0 [x] [y]))"

subsection \<open>The search\<close>

text \<open>
  \<^verbatim>\<open>InformedTRRTStar.search_route\<close>, from position \<open>p\<close> of the random stream. The
  result is the four sequences the method returns.
\<close>

definition trrt_search_route ::
  "nat \<Rightarrow> rrt_base \<Rightarrow> (nat \<Rightarrow> real) \<Rightarrow> trrt \<Rightarrow> nat
     \<Rightarrow> (py_error + real list \<times> real list \<times> real list \<times> real list) option" where
  "trrt_search_route fuel B U P p =
     (let (rx, ry) = find_path B (start P) (goal P)
      in if rx = [] \<or> ry = [] then Some (Inr ([], [], [], []))
         else
           (case narrow_sample P rx ry of
              Inl e \<Rightarrow> Some (Inl e)
            | Inr path_region \<Rightarrow>
                (case grow_loop (nat (max_iter P)) fuel B U path_region P p of
                   None \<Rightarrow> None
                 | Some (Inl e) \<Rightarrow> Some (Inl e)
                 | Some (Inr (P', p')) \<Rightarrow>
                     if nparent (goal P') = None then Some (Inr ([], [], [], []))
                     else
                       let (rx_opt, ry_opt) = generate_final_course B (nodes P') (goal P')
                       in (case smooth_path fuel B rx_opt ry_opt of
                             None \<Rightarrow> None
                           | Some (Inl e) \<Rightarrow> Some (Inl e)
                           | Some (Inr (sx, sy)) \<Rightarrow> Some (Inr (rx, ry, sx, sy))))))"

subsection \<open>Passes of the loop, and an instance of the inherited methods\<close>

text \<open>
  \<open>pass_start fuel B U r s (P, p)\<close>: a run of the loop of \<^verbatim>\<open>search_route\<close> that begins
  with the planner and stream position \<open>s\<close> has the planner \<open>P\<close> and the position \<open>p\<close> at
  the start of one of its passes. A pass is followed by another one only when it has
  not left the loop.
\<close>

inductive pass_start ::
  "nat \<Rightarrow> rrt_base \<Rightarrow> (nat \<Rightarrow> real) \<Rightarrow> region list \<Rightarrow> trrt \<times> nat \<Rightarrow> trrt \<times> nat \<Rightarrow> bool"
  for fuel B U r s where
  first_pass: "pass_start fuel B U r s s"
| next_pass: "pass_start fuel B U r s (P, p) \<Longrightarrow>
              grow_step fuel B U r P p = Some (Inr (P', p', False)) \<Longrightarrow>
              pass_start fuel B U r s (P', p')"

text \<open>
  The inherited methods on a field without obstacles, for evaluating the planner on
  concrete inputs: steering reaches its target, the nearest node is the root, rewiring
  changes nothing, and the seed path is the straight segment from start to goal.
\<close>

definition open_field :: rrt_base where
  "open_field =
     \<lparr>steer = (\<lambda>ns i to ext.
         to\<lparr>ncost := ncost (ns ! i) + hypot (nx to - nx (ns ! i)) (ny to - ny (ns ! i)),
            nparent := Some i\<rparr>),
      is_collision_free = (\<lambda>a b. True),
      get_nearest_node_index = (\<lambda>ns n. 0),
      rewire = (\<lambda>ns i near k. ns ! k),
      generate_final_course = (\<lambda>ns g. ([nx (ns ! 0), nx g], [ny (ns ! 0), ny g])),
      sample_unit_ball = (\<lambda>U p. ((U p, U (Suc p)), Suc (Suc p))),
      is_within_map_instance = (\<lambda>n. True),
      rotation_to_world_frame = (\<lambda>s g. ((1, 0), (0, 1))),
      find_path = (\<lambda>s g. ([nx s, nx g], [ny s, ny g]))\<rparr>"

section \<open>Receding-horizon controller\<close>

subsection \<open>States, controls and the control grid\<close>

text \<open>
  A state is the array \<open>[x, y, theta, v]\<close>, a control the pair of the two reference
  inputs. A reference trajectory is a two-dimensional array: a list of rows.
\<close>

type_synonym state = "real \<times> real \<times> real \<times> real"
type_synonym control = "real \<times> real"

text \<open>\<^verbatim>\<open>np.linspace(a, b, n)\<close>\<close>

definition linspace :: "real \<Rightarrow> real \<Rightarrow> nat \<Rightarrow> real list" where
  "linspace a b n = map (\<lambda>i. a + of_nat i * ((b - a) / of_nat (n - 1))) [0..<n]"

text \<open>
  The two nested loops of \<^verbatim>\<open>optimize_control\<close> visit the control combinations in
  this order, the steering angle varying fastest.
\<close>

definition control_grid :: "control list" where
  "control_grid = List.product (linspace (- 1) 1 7) (linspace (- (pi / 6)) (pi / 6) 7)"

text \<open>
  The loop \<^verbatim>\<open>for _ in range(horizon): state = step(state); predicted_states.append(state)\<close>.
\<close>

fun rollout :: "(state \<Rightarrow> state) \<Rightarrow> nat \<Rightarrow> state \<Rightarrow> state list" where
  "rollout f 0 s = []"
| "rollout f (Suc n) s = f s # rollout f n (f s)"

text \<open>
  \<^verbatim>\<open>np.sum((state - ref_state) ** 2)\<close>: the difference of a state and a row of the
  reference follows numpy's broadcasting, which takes a row of four entries or of one
  entry and raises on any other.
\<close>

fun squared_error :: "state \<Rightarrow> real list \<Rightarrow> py_error + real" where
  "squared_error (x, y, theta, v) [a, b, c, d] =
     Inr ((x - a)\<^sup>2 + (y - b)\<^sup>2 + (theta - c)\<^sup>2 + (v - d)\<^sup>2)"
| "squared_error (x, y, theta, v) [a] =
     Inr ((x - a)\<^sup>2 + (y - a)\<^sup>2 + (theta - a)\<^sup>2 + (v - a)\<^sup>2)"
| "squared_error (x, y, theta, v) row = Inl ValueError"

text \<open>\<^verbatim>\<open>MPCController.compute_cost\<close>, the same in both variants, from the cost so far.\<close>

fun compute_cost_from :: "real \<Rightarrow> state list \<Rightarrow> real list list \<Rightarrow> py_error + real" where
  "compute_cost_from cost [] ref_trajectory = Inr cost"
| "compute_cost_from cost (s # predicted_states) [] = Inr cost"
| "compute_cost_from cost (s # predicted_states) (ref_state # ref_trajectory) =
     (case squared_error s ref_state of
        Inl e \<Rightarrow> Inl e
      | Inr c \<Rightarrow> compute_cost_from (cost + c) predicted_states ref_trajectory)"

definition compute_cost :: "state list \<Rightarrow> real list list \<Rightarrow> py_error + real" where
  "compute_cost predicted_states ref_trajectory = compute_cost_from 0 predicted_states ref_trajectory"

text \<open>
  What an \<^verbatim>\<open>optimize_control\<close> hands back to its caller: the variant of
  \<^verbatim>\<open>control/mpc_basic.py\<close> returns the control alone, the variant of
  \<^verbatim>\<open>controller/mpc_controller.py\<close> the control and the predicted states.
\<close>

datatype optimizer_result = Control_only control | Control_with_rollout control "state list"

subsection \<open>The variant of \<^verbatim>\<open>control/mpc_basic.py\<close>\<close>

record basic_controller =
  basic_horizon :: int
  basic_dt :: real
  basic_map_instance :: parking_lot
  basic_wheelbase :: real

text \<open>\<^verbatim>\<open>MPCController.predict\<close>\<close>

fun predict :: "basic_controller \<Rightarrow> state \<Rightarrow> control \<Rightarrow> state" where
  "predict M (x, y, theta, v) (v_ref, delta_ref) =
     (x + v * cos theta * basic_dt M,
      y + v * sin theta * basic_dt M,
      theta + v / basic_wheelbase M * tan delta_ref * basic_dt M,
      v + v_ref * basic_dt M)"

text \<open>\<^verbatim>\<open>MPCController.is_collision_free\<close>\<close>

fun basic_is_collision_free :: "basic_controller \<Rightarrow> state \<Rightarrow> bool" where
  "basic_is_collision_free M (x, y, theta, v) =
     is_not_crossed_obstacle (basic_map_instance M)
       (py_round x, py_round y) (py_round x, py_round y)"

text \<open>
  The body of the two loops of \<^verbatim>\<open>optimize_control\<close> for one control combination,
  on the best control and the least cost found so far.
\<close>

definition basic_try_control ::
  "basic_controller \<Rightarrow> state \<Rightarrow> real list list \<Rightarrow> control option \<times> pyfloat \<Rightarrow> control
     \<Rightarrow> py_error + control option \<times> pyfloat" where
  "basic_try_control M current_state ref_trajectory acc u =
     (let predicted_states =
            take (length ref_trajectory)
                 (rollout (\<lambda>s. predict M s u) (nat (basic_horizon M)) current_state)
      in if list_all (basic_is_collision_free M) predicted_states
         then (case compute_cost predicted_states ref_trajectory of
                 Inl e \<Rightarrow> Inl e
               | Inr cost \<Rightarrow>
                   if float_less cost (snd acc) then Inr (Some u, Fin cost) else Inr acc)
         else Inr acc)"

fun basic_search ::
  "basic_controller \<Rightarrow> state \<Rightarrow> real list list \<Rightarrow> control list \<Rightarrow> control option \<times> pyfloat
     \<Rightarrow> py_error + control option \<times> pyfloat" where
  "basic_search M current_state ref_trajectory [] acc = Inr acc"
| "basic_search M current_state ref_trajectory (u # us) acc =
     (case basic_try_control M current_state ref_trajectory acc u of
        Inl e \<Rightarrow> Inl e
      | Inr acc' \<Rightarrow> basic_search M current_state ref_trajectory us acc')"

text \<open>\<^verbatim>\<open>MPCController.optimize_control\<close> of \<^verbatim>\<open>control/mpc_basic.py\<close>\<close>

definition basic_optimize_control ::
  "basic_controller \<Rightarrow> state \<Rightarrow> real list list \<Rightarrow> py_error + control" where
  "basic_optimize_control M current_state ref_trajectory =
     (case basic_search M current_state ref_trajectory control_grid (None, PInf) of
        Inl e \<Rightarrow> Inl e
      | Inr (best_control, min_cost) \<Rightarrow>
          (case best_control of
             None \<Rightarrow> Inr (1 / 10, 0)
           | Some u \<Rightarrow> Inr u))"

definition basic_returned ::
  "basic_controller \<Rightarrow> state \<Rightarrow> real list list \<Rightarrow> py_error + optimizer_result" where
  "basic_returned M current_state ref_trajectory =
     map_sum id Control_only (basic_optimize_control M current_state ref_trajectory)"

subsection \<open>The variant of \<^verbatim>\<open>controller/mpc_controller.py\<close>\<close>

text \<open>
  The controller object. Its class extends \<^verbatim>\<open>BaseController\<close> and uses two functions
  of \<^verbatim>\<open>utils\<close>; neither module is among the sources, and what the controller calls of
  them is a parameter of the model:
  \<^item> \<open>apply_control s u\<close>, the state after applying the control \<open>u\<close> in state \<open>s\<close>;
  \<^item> \<open>is_collision_free_from s t\<close>, the inherited \<^verbatim>\<open>is_collision_free(s, t)\<close>;
  \<^item> \<open>is_goal_reached s g\<close>, the goal-proximity test;
  \<^item> \<open>calculate_angle\<close> and \<open>calculate_trajectory_distance\<close> of \<^verbatim>\<open>utils\<close>.
\<close>

record controller =
  horizon :: int
  apply_control :: "state \<Rightarrow> control \<Rightarrow> state"
  is_collision_free_from :: "state \<Rightarrow> state \<Rightarrow> bool"
  is_goal_reached :: "state \<Rightarrow> real \<times> real \<Rightarrow> bool"
  calculate_angle :: "real \<Rightarrow> real \<Rightarrow> real \<Rightarrow> real \<Rightarrow> real"
  calculate_trajectory_distance :: "state list \<Rightarrow> real"

text \<open>The variable \<^verbatim>\<open>state\<close> after the rollout loop: the last state predicted.\<close>

definition rollout_end :: "state list \<Rightarrow> state \<Rightarrow> state" where
  "rollout_end predicted current_state = (if predicted = [] then current_state else last predicted)"

text \<open>
  The body of the two loops for one control combination, on the best control with its
  predicted states (the two variables are assigned together) and the least cost so far.
  The collision test of each predicted state is given the state the rollout ended in.
  After the test, the body plots the columns of the array of predicted states, which
  raises when there is no predicted state.
\<close>

definition try_control ::
  "controller \<Rightarrow> state \<Rightarrow> real list list \<Rightarrow> (control \<times> state list) option \<times> pyfloat
     \<Rightarrow> control \<Rightarrow> py_error + (control \<times> state list) option \<times> pyfloat" where
  "try_control M current_state ref_trajectory acc u =
     (let full = rollout (\<lambda>s. apply_control M s u) (nat (horizon M)) current_state;
          s_end = rollout_end full current_state;
          predicted_states = take (length ref_trajectory) full
      in if list_all (is_collision_free_from M s_end) predicted_states
         then (case compute_cost predicted_states ref_trajectory of
                 Inl e \<Rightarrow> Inl e
               | Inr cost \<Rightarrow>
                   if predicted_states = [] then Inl IndexError
                   else if float_less cost (snd acc)
                   then Inr (Some (u, predicted_states), Fin cost)
                   else Inr acc)
         else if predicted_states = [] then Inl IndexError else Inr acc)"

fun search_controls ::
  "controller \<Rightarrow> state \<Rightarrow> real list list \<Rightarrow> control list
     \<Rightarrow> (control \<times> state list) option \<times> pyfloat
     \<Rightarrow> py_error + (control \<times> state list) option \<times> pyfloat" where
  "search_controls M current_state ref_trajectory [] acc = Inr acc"
| "search_controls M current_state ref_trajectory (u # us) acc =
     (case try_control M current_state ref_trajectory acc u of
        Inl e \<Rightarrow> Inl e
      | Inr acc' \<Rightarrow> search_controls M current_state ref_trajectory us acc')"

text \<open>\<^verbatim>\<open>MPCController.optimize_control\<close> of \<^verbatim>\<open>controller/mpc_controller.py\<close>\<close>

definition optimize_control ::
  "controller \<Rightarrow> state \<Rightarrow> real list list \<Rightarrow> py_error + control \<times> state list" where
  "optimize_control M current_state ref_trajectory =
     (case search_controls M current_state ref_trajectory control_grid (None, PInf) of
        Inl e \<Rightarrow> Inl e
      | Inr (best, min_cost) \<Rightarrow>
          (case best of
             None \<Rightarrow>
               Inr ((1 / 2, 0),
                    rollout (\<lambda>s. apply_control M s (1 / 2, 0)) (nat (horizon M)) current_state)
           | Some (best_control, best_predicted_states) \<Rightarrow>
               Inr (best_control, best_predicted_states)))"

definition controller_returned ::
  "controller \<Rightarrow> state \<Rightarrow> real list list \<Rightarrow> py_error + optimizer_result" where
  "controller_returned M current_state ref_trajectory =
     map_sum id (\<lambda>(u, ps). Control_with_rollout u ps)
       (optimize_control M current_state ref_trajectory)"

subsection \<open>Following a trajectory\<close>

text \<open>
  \<^verbatim>\<open>np.linalg.norm(ref_points - current_state[:2], axis=1)\<close> for one row of the
  reference: the first two columns of the row minus the position, by numpy's
  broadcasting.
\<close>

fun point_distance :: "real list \<Rightarrow> real \<times> real \<Rightarrow> py_error + real" where
  "point_distance [] (x, y) = Inl ValueError"
| "point_distance [a] (x, y) = Inr (sqrt ((a - x)\<^sup>2 + (a - y)\<^sup>2))"
| "point_distance (a # b # rest) (x, y) = Inr (sqrt ((a - x)\<^sup>2 + (b - y)\<^sup>2))"

fun point_distances :: "real list list \<Rightarrow> real \<times> real \<Rightarrow> py_error + real list" where
  "point_distances [] p = Inr []"
| "point_distances (row # rows) p =
     (case point_distance row p of
        Inl e \<Rightarrow> Inl e
      | Inr d \<Rightarrow> (case point_distances rows p of Inl e \<Rightarrow> Inl e | Inr ds \<Rightarrow> Inr (d # ds)))"

text \<open>
  \<^verbatim>\<open>np.argmin\<close>: the position of the first least entry, from the position \<open>i\<close> of the
  least entry \<open>m\<close> so far and the position \<open>k\<close> of the next entry; an empty array raises.
\<close>

fun argmin_from :: "nat \<Rightarrow> real \<Rightarrow> nat \<Rightarrow> real list \<Rightarrow> nat" where
  "argmin_from i m k [] = i"
| "argmin_from i m k (d # ds) =
     (if d < m then argmin_from k d (Suc k) ds else argmin_from i m (Suc k) ds)"

definition argmin :: "real list \<Rightarrow> py_error + nat" where
  "argmin ds = (case ds of [] \<Rightarrow> Inl ValueError | d # rest \<Rightarrow> Inr (argmin_from 0 d 1 rest))"

text \<open>
  The slice \<^verbatim>\<open>xs[i:j]\<close> for \<open>0 \<le> i\<close>; a negative \<open>j\<close> counts from the end of the
  list.
\<close>

definition py_slice :: "'a list \<Rightarrow> int \<Rightarrow> int \<Rightarrow> 'a list" where
  "py_slice xs i j =
     (let n = int (length xs);
          j' = (if j < 0 then max (n + j) 0 else min j n)
      in take (nat (j' - i)) (drop (nat i) xs))"

text \<open>The variables of the loop of \<^verbatim>\<open>follow_trajectory\<close>.\<close>

record follow_state =
  current_state :: state
  trajectory :: "state list"
  steering_angles :: "real list"
  accelations :: "real list"
  ref_index :: int

text \<open>
  The re-anchoring of the reference index: the nearest point of the reference among
  the indices within \<open>window_size = 10\<close> of the previous index.
\<close>

definition reanchor :: "real list list \<Rightarrow> state \<Rightarrow> int \<Rightarrow> py_error + int" where
  "reanchor ref_trajectory s prev_index =
     (let max_ref_index = int (length ref_trajectory) - 1;
          window_size = 10;
          search_start = max (prev_index - window_size) 0;
          search_end = min (prev_index + window_size) max_ref_index;
          search_indices = [search_start..search_end];
          ref_points = map (\<lambda>i. ref_trajectory ! nat i) search_indices
      in case point_distances ref_points (fst s, fst (snd s)) of
           Inl e \<Rightarrow> Inl e
         | Inr distances \<Rightarrow>
             (case argmin distances of
                Inl e \<Rightarrow> Inl e
              | Inr min_distance_index \<Rightarrow> Inr (search_indices ! min_distance_index)))"

text \<open>
  The reference segment: \<open>horizon\<close> rows from the index on, the last row repeated when
  the reference ends before.
\<close>

definition ref_segment_at :: "controller \<Rightarrow> real list list \<Rightarrow> int \<Rightarrow> py_error + real list list" where
  "ref_segment_at M ref_trajectory i =
     (let max_ref_index = int (length ref_trajectory) - 1;
          ref_segment_end = min (i + horizon M) (max_ref_index + 1);
          ref_segment = py_slice ref_trajectory i ref_segment_end
      in if int (length ref_segment) < horizon M
         then (if ref_segment = [] then Inl IndexError
               else Inr (ref_segment
                         @ replicate (nat (horizon M - int (length ref_segment))) (last ref_segment)))
         else Inr ref_segment)"

text \<open>One pass through the body of the loop, after the goal test has failed.\<close>

definition follow_step :: "controller \<Rightarrow> real list list \<Rightarrow> follow_state \<Rightarrow> py_error + follow_state" where
  "follow_step M ref_trajectory st =
     (case reanchor ref_trajectory (current_state st) (ref_index st) of
        Inl e \<Rightarrow> Inl e
      | Inr i \<Rightarrow>
          (case ref_segment_at M ref_trajectory i of
             Inl e \<Rightarrow> Inl e
           | Inr ref_segment \<Rightarrow>
               (case optimize_control M (current_state st) ref_segment of
                  Inl e \<Rightarrow> Inl e
                | Inr (control_input, predicted_states) \<Rightarrow>
                    (let next_state = apply_control M (current_state st) control_input
                     in Inr \<lparr>current_state = next_state,
                             trajectory = trajectory st @ [next_state],
                             steering_angles = steering_angles st @ [snd control_input],
                             accelations = accelations st @ [fst control_input],
                             ref_index = i\<rparr>))))"

text \<open>
  The loop \<^verbatim>\<open>while True\<close>, left only through the goal test. \<open>None\<close> is a loop that
  has not ended within its fuel.
\<close>

fun follow_loop ::
  "nat \<Rightarrow> controller \<Rightarrow> real list list \<Rightarrow> real \<times> real \<Rightarrow> follow_state
     \<Rightarrow> (py_error + follow_state) option" where
  "follow_loop 0 M ref_trajectory goal_position st = None"
| "follow_loop (Suc fuel) M ref_trajectory goal_position st =
     (if is_goal_reached M (current_state st) goal_position then Some (Inr st)
      else (case follow_step M ref_trajectory st of
              Inl e \<Rightarrow> Some (Inl e)
            | Inr st' \<Rightarrow> follow_loop fuel M ref_trajectory goal_position st'))"

text \<open>
  The loop state at the start of the pass number \<open>n\<close> of the loop, counted from
  \<open>0\<close>; \<open>None\<close> when the loop has ended before.
\<close>

fun follow_pass ::
  "nat \<Rightarrow> controller \<Rightarrow> real list list \<Rightarrow> real \<times> real \<Rightarrow> follow_state
     \<Rightarrow> (py_error + follow_state) option" where
  "follow_pass 0 M ref_trajectory goal_position st = Some (Inr st)"
| "follow_pass (Suc n) M ref_trajectory goal_position st =
     (if is_goal_reached M (current_state st) goal_position then None
      else (case follow_step M ref_trajectory st of
              Inl e \<Rightarrow> Some (Inl e)
            | Inr st' \<Rightarrow> follow_pass n M ref_trajectory goal_position st'))"

text \<open>
  The state the loop starts in: the vehicle at the start pose, at rest, heading for
  the second point of the reference. Reading that point raises when the reference has
  fewer than two rows or fewer than two columns.
\<close>

definition follow_init :: "controller \<Rightarrow> pose \<Rightarrow> real list list \<Rightarrow> py_error + follow_state" where
  "follow_init M start_pose ref_trajectory =
     (if 2 \<le> length ref_trajectory \<and> 2 \<le> length (ref_trajectory ! 1)
      then
        let theta = calculate_angle M (px start_pose) (py start_pose)
                      (ref_trajectory ! 1 ! 0) (ref_trajectory ! 1 ! 1);
            s = (px start_pose, py start_pose, theta, 0)
        in Inr \<lparr>current_state = s, trajectory = [s], steering_angles = [], accelations = [],
                ref_index = 0\<rparr>
      else Inl IndexError)"

text \<open>
  The part of \<^verbatim>\<open>follow_trajectory\<close> after the loop. The final adjustment writes the
  goal position and the heading into the array of the current state, which is also the
  last entry of the trajectory once the loop has made a pass, and appends it. The
  Boolean says whether the adjustment was made.
\<close>

definition final_adjustment :: "controller \<Rightarrow> real \<times> real \<Rightarrow> follow_state \<Rightarrow> follow_state \<times> bool" where
  "final_adjustment M goal_position st =
     (if \<not> is_goal_reached M (current_state st) goal_position
      then
        let (gx, gy) = goal_position;
            (x, y, theta, v) = current_state st;
            s = (gx, gy, calculate_angle M gx gy gx gy, v);
            written = (if steering_angles st = [] then trajectory st
                       else butlast (trajectory st) @ [s])
        in (st\<lparr>current_state := s, trajectory := written @ [s]\<rparr>, True)
      else (st, False))"

text \<open>
  \<^verbatim>\<open>MPCController.follow_trajectory\<close> of \<^verbatim>\<open>controller/mpc_controller.py\<close>. The flag
  \<^verbatim>\<open>is_reached\<close> is set once, before the loop.
\<close>

definition follow_trajectory ::
  "nat \<Rightarrow> controller \<Rightarrow> pose \<Rightarrow> real list list \<Rightarrow> real \<times> real
     \<Rightarrow> (py_error + bool \<times> real \<times> state list \<times> real list \<times> real list) option" where
  "follow_trajectory fuel M start_pose ref_trajectory goal_position =
     (case follow_init M start_pose ref_trajectory of
        Inl e \<Rightarrow> Some (Inl e)
      | Inr st0 \<Rightarrow>
          (let is_reached = True
           in case follow_loop fuel M ref_trajectory goal_position st0 of
                None \<Rightarrow> None
              | Some (Inl e) \<Rightarrow> Some (Inl e)
              | Some (Inr st) \<Rightarrow>
                  (let st' = fst (final_adjustment M goal_position st);
                       total_distance = calculate_trajectory_distance M (trajectory st')
                   in Some (Inr (is_reached, total_distance, trajectory st',
                                 steering_angles st', accelations st')))))"

subsection \<open>Rollouts in collision\<close>

text \<open>
  No rollout of the control grid is free of collisions: for every control combination,
  the collision test fails on some predicted state. One predicate for each variant.
\<close>

definition basic_all_collide :: "basic_controller \<Rightarrow> state \<Rightarrow> real list list \<Rightarrow> bool" where
  "basic_all_collide M cur ref =
     list_all (\<lambda>u. \<not> list_all (basic_is_collision_free M)
                       (take (length ref) (rollout (\<lambda>s. predict M s u) (nat (basic_horizon M)) cur)))
              control_grid"

definition all_collide :: "controller \<Rightarrow> state \<Rightarrow> real list list \<Rightarrow> bool" where
  "all_collide M cur ref =
     list_all (\<lambda>u. \<not> list_all
                       (is_collision_free_from M
                          (rollout_end (rollout (\<lambda>s. apply_control M s u) (nat (horizon M)) cur) cur))
                       (take (length ref) (rollout (\<lambda>s. apply_control M s u) (nat (horizon M)) cur)))
              control_grid"

text \<open>The predicted states that come with a returned control, if any do.\<close>

fun returned_rollout :: "optimizer_result \<Rightarrow> state list option" where
  "returned_rollout (Control_only u) = None"
| "returned_rollout (Control_with_rollout u ps) = Some ps"

subsection \<open>A controller for evaluating concrete runs\<close>

text \<open>
  The length of a trajectory, the sum of the distances between consecutive positions.
\<close>

fun trajectory_length :: "state list \<Rightarrow> real" where
  "trajectory_length (s # t # rest) =
     hypot (fst t - fst s) (fst (snd t) - fst (snd s)) + trajectory_length (t # rest)"
| "trajectory_length rest = 0"

text \<open>
  A controller whose vehicle follows the kinematic bicycle model of \<open>predict\<close> with time
  step \<open>1\<close> and wheelbase \<open>1\<close>, which looks one step ahead and finds every predicted
  state in collision; the goal counts as reached within half a unit.
\<close>

definition blocked_controller :: controller where
  "blocked_controller =
     \<lparr>horizon = 1,
      apply_control = predict \<lparr>basic_horizon = 1, basic_dt = 1,
                                basic_map_instance = ParkingLot, basic_wheelbase = 1\<rparr>,
      is_collision_free_from = (\<lambda>s t. False),
      is_goal_reached = (\<lambda>s g. hypot (fst s - fst g) (fst (snd s) - snd g) < 1 / 2),
      calculate_angle = (\<lambda>x1 y1 x2 y2. atan2 (y2 - y1) (x2 - x1)),
      calculate_trajectory_distance = trajectory_length\<rparr>"

section \<open>Hybrid grid search planner: the search\<close>

text \<open>
  The planner object: the start and goal nodes and the map. The search also calls
  \<^verbatim>\<open>transform_trajectory\<close> and \<^verbatim>\<open>calculate_trajectory_distance\<close> of \<^verbatim>\<open>utils\<close>, a
  module that is not among the sources; the two functions are parameters of the model,
  kept with the planner.
\<close>

record hybrid_planner =
  start_node :: hnode
  goal_node :: hnode
  grid_map :: parking_lot
  transform_trajectory :: "real list \<Rightarrow> real list \<Rightarrow> pose list"
  route_distance :: "pose list \<Rightarrow> real"


text \<open>\<^verbatim>\<open>HybridAStarRoutePlanner.calculate_distance_to_end\<close>\<close>

definition calculate_distance_to_end :: "hybrid_planner \<Rightarrow> pose \<Rightarrow> real" where
  "calculate_distance_to_end P p =
     sqrt ((px p - px (hpose (goal_node P)))\<^sup>2 + (py p - py (hpose (goal_node P)))\<^sup>2)"

text \<open>\<^verbatim>\<open>HybridAStarRoutePlanner.calculate_heuristic_cost\<close>\<close>

definition calculate_heuristic_cost :: "hybrid_planner \<Rightarrow> hnode \<Rightarrow> real" where
  "calculate_heuristic_cost P node =
     (let distance_cost = calculate_distance_to_end P (hpose node);
          angle_cost =
            \<bar>change_radians_range (ptheta (hpose node) - ptheta (hpose (goal_node P)))\<bar> * (1 / 10);
          steering_cost = \<bar>steering node\<bar> * 10
      in distance_cost + angle_cost + steering_cost)"

text \<open>
  The open and the closed set are dictionaries from grid indices to nodes. A Python
  dictionary keeps its keys in the order of their insertion, and \<^verbatim>\<open>min\<close> returns the
  first of the least keys in that order: the dictionaries are association lists with
  distinct keys, updated in place or at the end.

  \<open>min_entry f best rest\<close> is the first entry of \<open>best # rest\<close> that is least for \<open>f\<close>.
\<close>

type_synonym node_dict = "(int \<times> hnode) list"

fun min_entry :: "(int \<times> hnode \<Rightarrow> real) \<Rightarrow> int \<times> hnode \<Rightarrow> node_dict \<Rightarrow> int \<times> hnode" where
  "min_entry f best [] = best"
| "min_entry f best (e # rest) =
     (if f e < f best then min_entry f e rest else min_entry f best rest)"

text \<open>
  The successors of a node, one for each steering input and chord length, the chord
  length varying fastest.
\<close>

definition next_nodes :: "hnode \<Rightarrow> int \<Rightarrow> hnode list" where
  "next_nodes current_node current_node_index =
     map (\<lambda>(steer_input, velocity).
            calculate_next_node current_node current_node_index velocity steer_input)
         (List.product steering_inputs chord_lengths)"

text \<open>The body of the loop over the successors, on the open set.\<close>

definition relax_node ::
  "hybrid_planner \<Rightarrow> hnode \<Rightarrow> node_dict \<Rightarrow> node_dict \<Rightarrow> hnode \<Rightarrow> node_dict" where
  "relax_node P current_node closed_set open_set next_node =
     (if is_not_crossed_obstacle (grid_map P)
           (discrete_x current_node, discrete_y current_node)
           (discrete_x next_node, discrete_y next_node)
      then
        let next_node_index =
              get_grid_index (grid_map P) (discrete_x next_node) (discrete_y next_node)
        in if map_of closed_set next_node_index \<noteq> None then open_set
           else (case map_of open_set next_node_index of
                   None \<Rightarrow> AList.update next_node_index next_node open_set
                 | Some old \<Rightarrow>
                     if hcost old > hcost next_node
                     then AList.update next_node_index next_node open_set
                     else open_set)
      else open_set)"

text \<open>
  The loop of \<^verbatim>\<open>HybridAStarRoutePlanner.process_route\<close>, from the index of the next
  parent and the coordinates collected so far. A parent index that is not a key of the
  closed set raises \<^verbatim>\<open>KeyError\<close>; \<open>None\<close> is a loop that has not ended within its
  fuel.
\<close>

fun process_route_loop ::
  "nat \<Rightarrow> node_dict \<Rightarrow> int \<Rightarrow> real list \<Rightarrow> real list \<Rightarrow> (py_error + real list \<times> real list) option" where
  "process_route_loop 0 closed_set parent_node rx ry = None"
| "process_route_loop (Suc fuel) closed_set parent_node rx ry =
     (if parent_node \<noteq> - 1
      then (case map_of closed_set parent_node of
              None \<Rightarrow> Some (Inl KeyError)
            | Some n \<Rightarrow>
                process_route_loop fuel closed_set (parent_node_index n)
                  (rx @ [px (hpose n)]) (ry @ [py (hpose n)]))
      else Some (Inr (rev rx, rev ry)))"

text \<open>
  \<^verbatim>\<open>HybridAStarRoutePlanner.process_route\<close>, for the node that \<^verbatim>\<open>search_route\<close> has
  just made the goal node.
\<close>

definition process_route ::
  "nat \<Rightarrow> hnode \<Rightarrow> node_dict \<Rightarrow> (py_error + real list \<times> real list) option" where
  "process_route fuel reached closed_set =
     process_route_loop fuel closed_set (parent_node_index reached)
       [px (hpose reached)] [py (hpose reached)]"

text \<open>
  The loop \<^verbatim>\<open>while open_set\<close> of \<^verbatim>\<open>search_route\<close>. The first number is the fuel
  of each route reconstruction, the second the fuel of the loop itself. The result is
  the triple that \<^verbatim>\<open>search_route\<close> returns.
\<close>

fun search_loop ::
  "nat \<Rightarrow> nat \<Rightarrow> hybrid_planner \<Rightarrow> node_dict \<Rightarrow> node_dict
     \<Rightarrow> (py_error + bool \<times> real \<times> pose list) option" where
  "search_loop route_fuel 0 P open_set closed_set = None"
| "search_loop route_fuel (Suc fuel) P open_set closed_set =
     (case open_set of
        [] \<Rightarrow> Some (Inr (False, 0, []))
      | first # others \<Rightarrow>
          (let (current_node_index, current_node) =
                 min_entry (\<lambda>(k, n). hcost n + calculate_heuristic_cost P n) first others
           in if calculate_distance_to_end P (hpose current_node) \<le> 1
              then (case process_route route_fuel current_node closed_set of
                      None \<Rightarrow> None
                    | Some (Inl e) \<Rightarrow> Some (Inl e)
                    | Some (Inr (rx, ry)) \<Rightarrow>
                        (let route_trajectory = transform_trajectory P rx ry;
                             total_distance = route_distance P route_trajectory
                         in Some (Inr (True, total_distance, route_trajectory))))
              else
                (let closed_set' = AList.update current_node_index current_node closed_set;
                     open_set' =
                       foldl (relax_node P current_node closed_set')
                             (AList.delete current_node_index open_set)
                             (next_nodes current_node current_node_index)
                 in search_loop route_fuel fuel P open_set' closed_set')))"

text \<open>\<^verbatim>\<open>HybridAStarRoutePlanner.search_route\<close>\<close>

definition search_route ::
  "nat \<Rightarrow> hybrid_planner \<Rightarrow> (py_error + bool \<times> real \<times> pose list) option" where
  "search_route fuel P =
     search_loop fuel fuel P
       [(get_grid_index (grid_map P) (discrete_x (start_node P)) (discrete_y (start_node P)),
         start_node P)]
       []"

subsection \<open>The state of the search\<close>

text \<open>
  The grid index of the start node, and the grid indices that the search can meet: the
  start index and the indices of the cells strictly inside the bounds of the map, which
  are the only cells that \<open>is_not_crossed_obstacle\<close> admits.
\<close>

definition start_index :: "hybrid_planner \<Rightarrow> int" where
  "start_index P =
     get_grid_index (grid_map P) (discrete_x (start_node P)) (discrete_y (start_node P))"







subsection \<open>Runs of the search and the route of a node\<close>





subsection \<open>Trajectory functions for evaluating concrete runs\<close>




section \<open>Angle normalisation\<close>






section \<open>Hybrid grid search planner: node expansion\<close>

text \<open>
  Claim C1. Expanding a node with chord length \<open>L\<close> and steering angle \<open>s\<close> gives the
  successor whose heading is the normalised \<open>theta + L / wheelbase * tan s\<close>, whose
  position is the parent's moved by \<open>L\<close> along the new heading, and whose cost is the
  parent's plus \<open>L\<close>; it records the steering angle and the parent's grid index.
\<close>

theorem calculate_next_node_kinematic_arc:
  "(let theta' = change_radians_range (ptheta (hpose current) + L / wheelbase * tan s);
        next_node = calculate_next_node current idx L s
    in hpose next_node
         = \<lparr>px = px (hpose current) + L * cos theta',
            py = py (hpose current) + L * sin theta',
            ptheta = theta'\<rparr>
       \<and> hcost next_node = hcost current + L
       \<and> steering next_node = s
       \<and> parent_node_index next_node = idx)"
  by (simp add: calculate_next_node_def Node_def Let_def)

section \<open>Tree planner: the corridor test and the smoother\<close>

lemma hypot_zero [simp]: "hypot 0 0 = 0"
  by (simp add: hypot_def)

lemma hypot_zero_right: "hypot a 0 = \<bar>a\<bar>"
  by (simp add: hypot_def)

text \<open>
  Claim C6 (the code raises where the claim wants a guard). A corridor segment whose
  two end points coincide makes the perpendicular-distance computation of
  \<open>is_within_region\<close> divide by zero: the test raises \<open>ZeroDivisionError\<close>, whatever the
  node, the margin and the segments after it.
\<close>

theorem is_within_region_zero_length_raises:
  "is_within_region node ((x, y, x, y, margin) # rest) = Inl ZeroDivisionError"
  by simp

text \<open>The map's segment intersection, in contrast, takes a zero-length segment as no crossing.\<close>

lemma intersect_zero_length: "\<not> intersect line (c, c)" "\<not> intersect (c, c) line"
  by (simp_all add: intersect_def ccw_def Let_def)

lemma smooth_loop_stuck:
  assumes "Suc i < length path_x"
    and "find_shortcut B path_x path_y i (rev [Suc i..<length path_x]) = Inr None"
  shows "smooth_loop fuel B path_x path_y i smooth_x smooth_y = None"
  using assms by (induction fuel) simp_all

text \<open>
  Claim C5 (the code loops where the claim wants a guard). On a path of two points
  that do not see each other, the smoother does not return, however much fuel it gets:
  the inner loop finds no later index, the index stays, and the outer loop runs again.
\<close>

theorem smooth_path_loops_forever:
  "smooth_path fuel (B\<lparr>is_collision_free := \<lambda>a b. False\<rparr>) [x0, x1] [y0, y1] = None"
proof -
  have "find_shortcut (B\<lparr>is_collision_free := \<lambda>a b. False\<rparr>) [x0, x1] [y0, y1] 0
          (rev [Suc 0..<length [x0, x1]]) = Inr None"
    by simp
  then show ?thesis
    unfolding smooth_path_def using smooth_loop_stuck [of 0 "[x0, x1]"] by simp
qed

text \<open>
  The smoother does return, within as many passes as the path has points, on a path
  each point of which sees its successor; the paths that \<open>trrt_search_route\<close> hands to
  it are built from tree edges that were tested this way.
\<close>

lemma find_shortcut_finds:
  assumes "i < length path_y" "\<forall>j\<in>set js. j < length path_y"
    and "\<exists>j\<in>set js. is_collision_free B (geometry_Node (path_x ! i) (path_y ! i) 0)
                                             (geometry_Node (path_x ! j) (path_y ! j) 0)"
  shows "\<exists>j\<in>set js. find_shortcut B path_x path_y i js = Inr (Some j)"
  using assms by (induction js) auto

lemma smooth_loop_returns:
  assumes len: "length path_x \<le> length path_y"
    and vis: "\<forall>k. Suc k < length path_x \<longrightarrow>
                is_collision_free B (geometry_Node (path_x ! k) (path_y ! k) 0)
                                    (geometry_Node (path_x ! Suc k) (path_y ! Suc k) 0)"
  shows "length path_x - i \<le> fuel \<Longrightarrow> 0 < fuel \<Longrightarrow>
           \<exists>sx sy. smooth_loop fuel B path_x path_y i smooth_x smooth_y = Some (Inr (sx, sy))"
proof (induction fuel arbitrary: i smooth_x smooth_y)
  case 0
  then show ?case by simp
next
  case (Suc fuel)
  show ?case
  proof (cases "Suc i < length path_x")
    case False
    then show ?thesis by simp
  next
    case True
    let ?js = "rev [Suc i..<length path_x]"
    have "\<exists>j\<in>set ?js. find_shortcut B path_x path_y i ?js = Inr (Some j)"
    proof (rule find_shortcut_finds)
      show "i < length path_y" using True len by simp
      show "\<forall>j\<in>set ?js. j < length path_y" using len by auto
      show "\<exists>j\<in>set ?js. is_collision_free B (geometry_Node (path_x ! i) (path_y ! i) 0)
                                             (geometry_Node (path_x ! j) (path_y ! j) 0)"
        using True vis by (intro bexI [of _ "Suc i"]) auto
    qed
    then obtain j where j: "Suc i \<le> j" "j < length path_x"
      "find_shortcut B path_x path_y i ?js = Inr (Some j)"
      by auto
    have "length path_x - j \<le> fuel" using Suc.prems(1) j(1) by simp
    moreover have "0 < fuel" using Suc.prems(1) True by simp
    ultimately have "\<exists>sx sy. smooth_loop fuel B path_x path_y j
        (smooth_x @ [path_x ! j]) (smooth_y @ [path_y ! j]) = Some (Inr (sx, sy))"
      by (rule Suc.IH)
    with True j(3) show ?thesis by simp
  qed
qed

lemma smooth_path_returns_on_visible_path:
  assumes "path_x \<noteq> []" "length path_x \<le> length path_y"
    and "\<forall>k. Suc k < length path_x \<longrightarrow>
           is_collision_free B (geometry_Node (path_x ! k) (path_y ! k) 0)
                               (geometry_Node (path_x ! Suc k) (path_y ! Suc k) 0)"
  shows "\<exists>sx sy. smooth_path (length path_x) B path_x path_y = Some (Inr (sx, sy))"
proof -
  from assms(1,2) obtain x xs y ys where c: "path_x = x # xs" "path_y = y # ys"
    by (cases path_x; cases path_y) auto
  have "\<exists>sx sy. smooth_loop (length path_x) B path_x path_y 0 [x] [y] = Some (Inr (sx, sy))"
    by (rule smooth_loop_returns [OF assms(2,3)]) (use assms(1) in simp_all)
  then show ?thesis unfolding smooth_path_def by (simp add: c)
qed

text \<open>
  A seed path that repeats a point makes the first sampling of the search raise: the
  corridor has a segment of length zero.
\<close>

lemma search_route_raises_on_repeated_seed_point:
  assumes "find_path B (start P) (goal P) = ([x, x], [y, y])"
    and "0 < max_iter P" and "c_best P = Infinite"
  shows "trrt_search_route (Suc fuel) B U P p = Some (Inl ZeroDivisionError)"
proof -
  have n: "narrow_sample P [x, x] [y, y] = Inr [(x, y, x, y, search_radius P / 2)]"
    by (simp add: narrow_sample_def)
  have s: "sample (Suc fuel) B U P (Some [(x, y, x, y, search_radius P / 2)]) p
             = Some (Inl ZeroDivisionError)"
    using assms(3) by (simp add: sample_def uniform_def Let_def)
  from assms(2) obtain k where k: "nat (max_iter P) = Suc k" by (cases "nat (max_iter P)") auto
  have "grow_loop (nat (max_iter P)) (Suc fuel) B U [(x, y, x, y, search_radius P / 2)] P p
          = Some (Inl ZeroDivisionError)"
    unfolding k by (simp add: grow_step_def s del: get_random_node.simps sample_ellipse.simps)
  then show ?thesis
    unfolding trrt_search_route_def assms(1) by (simp add: n)
qed


section \<open>Tree planner: the near nodes\<close>

lemma near_nodes_set:
  "set (near_nodes P new_node)
     = {i. i < length (nodes P)
           \<and> float_le (hypot (nx (nodes P ! i) - nx new_node) (ny (nodes P ! i) - ny new_node))
                       (np_multiply (search_radius P) (np_divide (as_float (c_best P)) (c_min P)))}"
  by (auto simp: near_nodes_def adaptive_radius_def)

lemma grow_step_invariant:
  assumes "grow_step fuel B U r P p = Some (Inr (P', p', False))"
  shows "c_best P' = c_best P \<and> c_min P' = c_min P \<and> search_radius P' = search_radius P"
  using assms
  by (auto simp: grow_step_def Let_def split: option.splits sum.splits if_splits prod.splits)

lemma pass_start_invariant:
  assumes "pass_start fuel B U r s s'"
  shows "c_best (fst s') = c_best (fst s) \<and> c_min (fst s') = c_min (fst s)
         \<and> search_radius (fst s') = search_radius (fst s)"
  using assms
proof induction
  case first_pass
  show ?case by simp
next
  case (next_pass P p P' p')
  then show ?case using grow_step_invariant [of fuel B U r P p P' p'] by simp
qed

text \<open>
  Claim C4, as amended. At the start of every pass of the loop that begins with a newly
  constructed planner, the near nodes are exactly the tree nodes whose distance from the
  new node is at most \<open>search_radius * (c_best / c_min)\<close>; the best cost is still infinite
  there, so that for a positive search radius this bound is infinite and every node of
  the tree is a near node.
\<close>

theorem near_nodes_every_pass:
  assumes "pass_start fuel B U r (InformedTRRTStar B sp gp m iters radius, p0) (P, p)"
  shows "set (near_nodes P new_node)
           = {i. i < length (nodes P)
                 \<and> float_le (hypot (nx (nodes P ! i) - nx new_node) (ny (nodes P ! i) - ny new_node))
                        (np_multiply (search_radius P) (np_divide (as_float (c_best P)) (c_min P)))}
         \<and> c_best P = Infinite
         \<and> (0 < radius \<longrightarrow> adaptive_radius P = PInf \<and> near_nodes P new_node = [0..<length (nodes P)])"
proof -
  from pass_start_invariant [OF assms]
  have inv: "c_best P = Infinite" "c_min P = sqrt ((px sp - px gp)\<^sup>2 + (py sp - py gp)\<^sup>2)"
    "search_radius P = radius"
    by (simp_all add: InformedTRRTStar_def Let_def geometry_Node_def)
  have rad: "adaptive_radius P = PInf" if "0 < radius"
    using that inv by (simp add: adaptive_radius_def)
  have "near_nodes P new_node = [0..<length (nodes P)]" if "0 < radius"
    using rad [OF that] by (simp add: near_nodes_def)
  with rad inv(1) near_nodes_set show ?thesis by blast
qed

theorem near_nodes_every_pass_witness:
  "adaptive_radius (InformedTRRTStar open_field \<lparr>px = 0, py = 0, ptheta = 0\<rparr>
                      \<lparr>px = 3, py = 4, ptheta = 0\<rparr> ParkingLot 300 10) = PInf
   \<and> near_nodes (InformedTRRTStar open_field \<lparr>px = 0, py = 0, ptheta = 0\<rparr>
                      \<lparr>px = 3, py = 4, ptheta = 0\<rparr> ParkingLot 300 10) (geometry_Node 20 0 0) = [0]"
proof -
  have s: "pass_start 1 open_field (\<lambda>n. 0) []
             (InformedTRRTStar open_field \<lparr>px = 0, py = 0, ptheta = 0\<rparr>
                      \<lparr>px = 3, py = 4, ptheta = 0\<rparr> ParkingLot 300 10, 0)
             (InformedTRRTStar open_field \<lparr>px = 0, py = 0, ptheta = 0\<rparr>
                      \<lparr>px = 3, py = 4, ptheta = 0\<rparr> ParkingLot 300 10, 0)"
    by (rule first_pass)
  have r: "(0::real) < 10" by simp
  have n: "[0..<length (nodes (InformedTRRTStar open_field \<lparr>px = 0, py = 0, ptheta = 0\<rparr>
                      \<lparr>px = 3, py = 4, ptheta = 0\<rparr> ParkingLot 300 10))] = [0]"
    by (simp add: InformedTRRTStar_def Let_def)
  show ?thesis
    using near_nodes_every_pass [OF s, of "geometry_Node 20 0 0"] r n by simp
qed

text \<open>
  The claim as stated fails at the start of the search: for a start at \<open>(0, 0)\<close>, a goal at
  \<open>(3, 4)\<close> and search radius \<open>10\<close>, the best cost is not \<open>c_min = 5\<close>, the radius is not
  \<open>10\<close>, and the root counts as a near node of a point at distance \<open>20\<close>.
\<close>

theorem adaptive_radius_at_start_counterexample:
  "c_best (InformedTRRTStar open_field \<lparr>px = 0, py = 0, ptheta = 0\<rparr>
             \<lparr>px = 3, py = 4, ptheta = 0\<rparr> ParkingLot 300 10) \<noteq> Finite 5
   \<and> c_min (InformedTRRTStar open_field \<lparr>px = 0, py = 0, ptheta = 0\<rparr>
             \<lparr>px = 3, py = 4, ptheta = 0\<rparr> ParkingLot 300 10) = 5
   \<and> adaptive_radius (InformedTRRTStar open_field \<lparr>px = 0, py = 0, ptheta = 0\<rparr>
             \<lparr>px = 3, py = 4, ptheta = 0\<rparr> ParkingLot 300 10) \<noteq> Fin 10
   \<and> near_nodes (InformedTRRTStar open_field \<lparr>px = 0, py = 0, ptheta = 0\<rparr>
             \<lparr>px = 3, py = 4, ptheta = 0\<rparr> ParkingLot 300 10) (geometry_Node 20 0 0) = [0]
   \<and> hypot (nx (nodes (InformedTRRTStar open_field \<lparr>px = 0, py = 0, ptheta = 0\<rparr>
             \<lparr>px = 3, py = 4, ptheta = 0\<rparr> ParkingLot 300 10) ! 0) - 20)
            (ny (nodes (InformedTRRTStar open_field \<lparr>px = 0, py = 0, ptheta = 0\<rparr>
             \<lparr>px = 3, py = 4, ptheta = 0\<rparr> ParkingLot 300 10) ! 0) - 0) = 20"
proof -
  have "sqrt ((0 - 3)\<^sup>2 + (0 - 4)\<^sup>2) = (5::real)"
  proof -
    have "(0 - 3)\<^sup>2 + (0 - 4)\<^sup>2 = (5::real)\<^sup>2" by simp
    then show ?thesis by (simp only: real_sqrt_abs)
  qed
  then show ?thesis
    by (simp add: InformedTRRTStar_def Let_def geometry_Node_def adaptive_radius_def
        near_nodes_def hypot_zero_right)
qed


section \<open>Tree planner: failure results\<close>

lemma narrow_segments_ok:
  assumes "\<forall>i\<in>set is. Suc i < length y_path"
  shows "\<exists>r. narrow_segments margin x_path y_path is = Inr r"
  using assms by (induction "is") auto

lemma narrow_sample_ok:
  assumes "length x_path = length y_path"
  shows "\<exists>r. narrow_sample P x_path y_path = Inr r"
  unfolding narrow_sample_def using assms by (intro narrow_segments_ok) auto

text \<open>
  Claim C2. The tree planner returns four empty sequences exactly when the seed path is
  empty or the loop ends with a goal that has no parent. A planner constructed with
  \<open>max_iter = 0\<close> returns them for every start, goal, map, search radius and random
  stream, given a seed path whose two coordinate sequences have the same length.
\<close>

theorem trrt_search_route_empty:
  "(trrt_search_route fuel B U P p = Some (Inr ([], [], [], []))
      \<longleftrightarrow> fst (find_path B (start P) (goal P)) = []
          \<or> snd (find_path B (start P) (goal P)) = []
          \<or> (\<exists>path_region P' p'.
                narrow_sample P (fst (find_path B (start P) (goal P)))
                                (snd (find_path B (start P) (goal P))) = Inr path_region
                \<and> grow_loop (nat (max_iter P)) fuel B U path_region P p = Some (Inr (P', p'))
                \<and> nparent (goal P') = None))
   \<and> (length (fst (find_path B (geometry_Node (px sp) (py sp) 0) (geometry_Node (px gp) (py gp) 0)))
         = length (snd (find_path B (geometry_Node (px sp) (py sp) 0) (geometry_Node (px gp) (py gp) 0)))
       \<longrightarrow> trrt_search_route fuel B U (InformedTRRTStar B sp gp m 0 radius) p
             = Some (Inr ([], [], [], [])))"
proof
  obtain rx ry where f: "find_path B (start P) (goal P) = (rx, ry)"
    by (cases "find_path B (start P) (goal P)")
  show "trrt_search_route fuel B U P p = Some (Inr ([], [], [], []))
      \<longleftrightarrow> fst (find_path B (start P) (goal P)) = []
          \<or> snd (find_path B (start P) (goal P)) = []
          \<or> (\<exists>path_region P' p'.
                narrow_sample P (fst (find_path B (start P) (goal P)))
                                (snd (find_path B (start P) (goal P))) = Inr path_region
                \<and> grow_loop (nat (max_iter P)) fuel B U path_region P p = Some (Inr (P', p'))
                \<and> nparent (goal P') = None)"
    unfolding trrt_search_route_def f
    by (auto split: sum.splits option.splits prod.splits)
next
  let ?P = "InformedTRRTStar B sp gp m 0 radius"
  let ?s = "geometry_Node (px sp) (py sp) 0" and ?g = "geometry_Node (px gp) (py gp) 0"
  have sg: "start ?P = ?s" "goal ?P = ?g" "max_iter ?P = 0"
    by (simp_all add: InformedTRRTStar_def Let_def)
  obtain rx ry where f: "find_path B ?s ?g = (rx, ry)"
    by (cases "find_path B ?s ?g")
  show "length (fst (find_path B ?s ?g)) = length (snd (find_path B ?s ?g))
       \<longrightarrow> trrt_search_route fuel B U ?P p = Some (Inr ([], [], [], []))"
  proof
    assume "length (fst (find_path B ?s ?g)) = length (snd (find_path B ?s ?g))"
    then have "length rx = length ry" by (simp add: f)
    then obtain r where r: "narrow_sample ?P rx ry = Inr r"
      using narrow_sample_ok by blast
    have "nparent ?g = None" by (simp add: geometry_Node_def)
    then show "trrt_search_route fuel B U ?P p = Some (Inr ([], [], [], []))"
      unfolding trrt_search_route_def sg f using r by (simp add: sg)
  qed
qed

theorem trrt_search_route_empty_witness:
  "trrt_search_route 0 open_field (\<lambda>n. 0)
     (InformedTRRTStar open_field \<lparr>px = 0, py = 0, ptheta = 0\<rparr> \<lparr>px = 3, py = 4, ptheta = 0\<rparr>
        ParkingLot 0 10) 0
   = Some (Inr ([], [], [], []))"
proof -
  have h: "length (fst (find_path open_field
                     (geometry_Node (px \<lparr>px = 0, py = 0, ptheta = 0\<rparr>) (py \<lparr>px = 0, py = 0, ptheta = 0\<rparr>) 0)
                     (geometry_Node (px \<lparr>px = 3, py = 4, ptheta = 0\<rparr>) (py \<lparr>px = 3, py = 4, ptheta = 0\<rparr>) 0)))
         = length (snd (find_path open_field
                     (geometry_Node (px \<lparr>px = 0, py = 0, ptheta = 0\<rparr>) (py \<lparr>px = 0, py = 0, ptheta = 0\<rparr>) 0)
                     (geometry_Node (px \<lparr>px = 3, py = 4, ptheta = 0\<rparr>) (py \<lparr>px = 3, py = 4, ptheta = 0\<rparr>) 0)))"
    by (simp add: open_field_def)
  show ?thesis
    using trrt_search_route_empty [of 0 open_field "\<lambda>n. 0" _ 0 "\<lparr>px = 0, py = 0, ptheta = 0\<rparr>"
        "\<lparr>px = 3, py = 4, ptheta = 0\<rparr>" ParkingLot 10] h
    by blast
qed


section \<open>Controller: the fallback control\<close>

lemma control_grid_nonempty: "control_grid \<noteq> []"
  unfolding control_grid_def linspace_def by (simp add: upt_rec)

lemma basic_search_all_collide:
  assumes "\<forall>u\<in>set us. \<not> list_all (basic_is_collision_free M)
             (take (length ref) (rollout (\<lambda>s. predict M s u) (nat (basic_horizon M)) cur))"
  shows "basic_search M cur ref us acc = Inr acc"
  using assms by (induction us) (simp_all add: basic_try_control_def)

lemma search_controls_all_collide:
  assumes "\<forall>u\<in>set us. \<not> list_all
             (is_collision_free_from M
                (rollout_end (rollout (\<lambda>s. apply_control M s u) (nat (horizon M)) cur) cur))
             (take (length ref) (rollout (\<lambda>s. apply_control M s u) (nat (horizon M)) cur))"
  shows "search_controls M cur ref us acc = Inr acc"
  using assms
proof (induction us)
  case Nil
  show ?case by simp
next
  case (Cons u us)
  let ?ps = "take (length ref) (rollout (\<lambda>s. apply_control M s u) (nat (horizon M)) cur)"
  from Cons.prems have c: "\<not> list_all
             (is_collision_free_from M
                (rollout_end (rollout (\<lambda>s. apply_control M s u) (nat (horizon M)) cur) cur)) ?ps"
    by simp
  then have "?ps \<noteq> []" by auto
  with c have "try_control M cur ref acc u = Inr acc"
    by (simp add: try_control_def Let_def)
  with Cons show ?case by simp
qed

lemma rollout_nonempty: "0 < n \<Longrightarrow> rollout f n s \<noteq> []"
  by (cases n) simp_all

lemma rollout_length [simp]: "length (rollout f n s) = n"
  by (induction n arbitrary: s) simp_all

lemma optimize_control_all_collide:
  assumes "all_collide M cur ref"
  shows "optimize_control M cur ref
           = Inr ((1 / 2, 0), rollout (\<lambda>s. apply_control M s (1 / 2, 0)) (nat (horizon M)) cur)"
    and "rollout (\<lambda>s. apply_control M s (1 / 2, 0)) (nat (horizon M)) cur \<noteq> []"
proof -
  from assms have a: "\<forall>u\<in>set control_grid. \<not> list_all
             (is_collision_free_from M
                (rollout_end (rollout (\<lambda>s. apply_control M s u) (nat (horizon M)) cur) cur))
             (take (length ref) (rollout (\<lambda>s. apply_control M s u) (nat (horizon M)) cur))"
    by (simp add: all_collide_def list_all_iff)
  show "optimize_control M cur ref
           = Inr ((1 / 2, 0), rollout (\<lambda>s. apply_control M s (1 / 2, 0)) (nat (horizon M)) cur)"
    unfolding optimize_control_def by (simp add: search_controls_all_collide [OF a])
  have "hd control_grid \<in> set control_grid" using control_grid_nonempty by simp
  then obtain u where "u \<in> set control_grid" ..
  with a have "take (length ref) (rollout (\<lambda>s. apply_control M s u) (nat (horizon M)) cur) \<noteq> []"
    by auto
  then have "0 < nat (horizon M)" by (cases "nat (horizon M)") auto
  then show "rollout (\<lambda>s. apply_control M s (1 / 2, 0)) (nat (horizon M)) cur \<noteq> []"
    by (rule rollout_nonempty)
qed

text \<open>
  Claim C3, as amended. When no rollout of the 49 control combinations is free of
  collisions, the variant of \<^verbatim>\<open>control/mpc_basic.py\<close> returns the control \<open>(0.1, 0.0)\<close>
  and nothing else, and the variant of \<^verbatim>\<open>controller/mpc_controller.py\<close> returns the
  control \<open>(0.5, 0.0)\<close> together with the rollout of that control over the horizon, which
  is not empty. Neither returns a null control.
\<close>

theorem optimize_control_fallback:
  "(basic_all_collide Mb cur ref \<longrightarrow> basic_returned Mb cur ref = Inr (Control_only (1 / 10, 0)))
   \<and> (all_collide M cur ref \<longrightarrow>
        controller_returned M cur ref
          = Inr (Control_with_rollout (1 / 2, 0)
                   (rollout (\<lambda>s. apply_control M s (1 / 2, 0)) (nat (horizon M)) cur))
        \<and> rollout (\<lambda>s. apply_control M s (1 / 2, 0)) (nat (horizon M)) cur \<noteq> [])"
proof (intro conjI impI)
  assume "basic_all_collide Mb cur ref"
  then have "\<forall>u\<in>set control_grid. \<not> list_all (basic_is_collision_free Mb)
             (take (length ref) (rollout (\<lambda>s. predict Mb s u) (nat (basic_horizon Mb)) cur))"
    by (simp add: basic_all_collide_def list_all_iff)
  then show "basic_returned Mb cur ref = Inr (Control_only (1 / 10, 0))"
    by (simp add: basic_returned_def basic_optimize_control_def basic_search_all_collide)
next
  assume a: "all_collide M cur ref"
  show "controller_returned M cur ref
          = Inr (Control_with_rollout (1 / 2, 0)
                   (rollout (\<lambda>s. apply_control M s (1 / 2, 0)) (nat (horizon M)) cur))"
    by (simp add: controller_returned_def optimize_control_all_collide(1) [OF a])
  show "rollout (\<lambda>s. apply_control M s (1 / 2, 0)) (nat (horizon M)) cur \<noteq> []"
    by (rule optimize_control_all_collide(2) [OF a])
qed

lemma outside_is_crossed: "\<not> 0 < fst c \<Longrightarrow> \<not> is_not_crossed_obstacle m p c"
  by (simp add: is_not_crossed_obstacle_def Let_def)

lemma py_round_zero [simp]: "py_round 0 = 0"
  by (simp add: py_round_def)

lemma blocked_all_collide:
  "length ref \<noteq> 0 \<Longrightarrow> all_collide blocked_controller cur ref"
  unfolding all_collide_def list_all_iff
  by (cases ref) (auto simp: blocked_controller_def)

lemma basic_corner_all_collide:
  "ref \<noteq> [] \<Longrightarrow>
   basic_all_collide \<lparr>basic_horizon = 1, basic_dt = 1 / 10, basic_map_instance = ParkingLot,
                       basic_wheelbase = 5 / 2\<rparr> (0, 0, 0, 0) ref"
  unfolding basic_all_collide_def list_all_iff
  by (cases ref) (auto simp: outside_is_crossed)

theorem optimize_control_fallback_witness:
  "basic_returned \<lparr>basic_horizon = 1, basic_dt = 1 / 10, basic_map_instance = ParkingLot,
                    basic_wheelbase = 5 / 2\<rparr> (0, 0, 0, 0) [[1, 0, 0, 0]]
     = Inr (Control_only (1 / 10, 0))
   \<and> controller_returned blocked_controller (0, 0, 0, 0) [[1, 0, 0, 0]]
     = Inr (Control_with_rollout (1 / 2, 0) [(0, 0, 0, 1 / 2)])"
proof -
  have b: "basic_all_collide \<lparr>basic_horizon = 1, basic_dt = 1 / 10, basic_map_instance = ParkingLot,
                       basic_wheelbase = 5 / 2\<rparr> (0, 0, 0, 0) [[1, 0, 0, 0]]"
    by (rule basic_corner_all_collide) simp
  have c: "all_collide blocked_controller (0, 0, 0, 0) [[1, 0, 0, 0]]"
    by (rule blocked_all_collide) simp
  have r: "rollout (\<lambda>s. apply_control blocked_controller s (1 / 2, 0))
             (nat (horizon blocked_controller)) (0, 0, 0, 0) = [(0, 0, 0, 1 / 2)]"
    by (simp add: blocked_controller_def)
  show ?thesis
    using optimize_control_fallback [of _ "(0, 0, 0, 0)" "[[1, 0, 0, 0]]" blocked_controller] b c r
    by simp
qed

text \<open>
  The claim as stated fails for the variant of \<^verbatim>\<open>control/mpc_basic.py\<close>: in the corner
  \<open>(0, 0)\<close> of the parking lot every rollout collides, and what is returned is the
  default control with no rollout.
\<close>

theorem basic_returns_no_rollout_counterexample:
  "basic_all_collide \<lparr>basic_horizon = 1, basic_dt = 1 / 10, basic_map_instance = ParkingLot,
                       basic_wheelbase = 5 / 2\<rparr> (0, 0, 0, 0) [[1, 0, 0, 0]]
   \<and> basic_returned \<lparr>basic_horizon = 1, basic_dt = 1 / 10, basic_map_instance = ParkingLot,
                    basic_wheelbase = 5 / 2\<rparr> (0, 0, 0, 0) [[1, 0, 0, 0]]
     = Inr (Control_only (1 / 10, 0))
   \<and> map_sum id returned_rollout
       (basic_returned \<lparr>basic_horizon = 1, basic_dt = 1 / 10, basic_map_instance = ParkingLot,
                    basic_wheelbase = 5 / 2\<rparr> (0, 0, 0, 0) [[1, 0, 0, 0]])
     = Inr None"
proof -
  have b: "basic_all_collide \<lparr>basic_horizon = 1, basic_dt = 1 / 10, basic_map_instance = ParkingLot,
                       basic_wheelbase = 5 / 2\<rparr> (0, 0, 0, 0) [[1, 0, 0, 0]]"
    by (rule basic_corner_all_collide) simp
  then have "basic_search \<lparr>basic_horizon = 1, basic_dt = 1 / 10, basic_map_instance = ParkingLot,
                       basic_wheelbase = 5 / 2\<rparr> (0, 0, 0, 0) [[1, 0, 0, 0]] control_grid (None, PInf)
               = Inr (None, PInf)"
    by (intro basic_search_all_collide) (simp add: basic_all_collide_def list_all_iff)
  then show ?thesis using b
    by (simp add: basic_returned_def basic_optimize_control_def)
qed


section \<open>Controller: leaving the loop\<close>

lemma follow_loop_exit:
  "follow_loop fuel M ref goal_position st = Some (Inr st') \<Longrightarrow>
     is_goal_reached M (current_state st') goal_position"
proof (induction fuel arbitrary: st)
  case 0
  then show ?case by simp
next
  case (Suc fuel)
  then show ?case by (auto split: if_splits sum.splits)
qed

text \<open>
  Claim C10. Whenever \<open>follow_trajectory\<close> returns, the flag it returns is true, the
  loop has ended in a state that passes the goal test, and the final adjustment has not
  been made: what is returned are the trajectory and the histories of the loop.
\<close>

theorem follow_trajectory_reached:
  assumes "follow_trajectory fuel M start_pose ref goal_position
             = Some (Inr (reached, total_distance, traj, angles, accs))"
  shows "reached = True
         \<and> (\<exists>st0 st. follow_init M start_pose ref = Inr st0
                \<and> follow_loop fuel M ref goal_position st0 = Some (Inr st)
                \<and> is_goal_reached M (current_state st) goal_position
                \<and> final_adjustment M goal_position st = (st, False)
                \<and> traj = trajectory st \<and> angles = steering_angles st \<and> accs = accelations st
                \<and> total_distance = calculate_trajectory_distance M (trajectory st))"
proof -
  from assms obtain st0 where i: "follow_init M start_pose ref = Inr st0"
    by (auto simp: follow_trajectory_def split: sum.splits)
  from assms i obtain st where l: "follow_loop fuel M ref goal_position st0 = Some (Inr st)"
    by (auto simp: follow_trajectory_def Let_def split: option.splits sum.splits)
  have g: "is_goal_reached M (current_state st) goal_position"
    by (rule follow_loop_exit [OF l])
  then have f: "final_adjustment M goal_position st = (st, False)"
    by (simp add: final_adjustment_def)
  from assms i l f show ?thesis using g
    by (auto simp: follow_trajectory_def Let_def)
qed

lemma atan2_zero [simp]: "atan2 0 0 = 0" "atan2 0 1 = 0"
  by (simp_all add: atan2_def)

theorem follow_trajectory_reached_witness:
  "follow_trajectory (Suc 0) blocked_controller \<lparr>px = 1, py = 0, ptheta = 0\<rparr>
      [[0, 0, 0, 0], [1, 0, 0, 0]] (1, 0)
     = Some (Inr (True, 0, [(1, 0, 0, 0)], [], []))
   \<and> final_adjustment blocked_controller (1, 0)
        \<lparr>current_state = (1, 0, 0, 0), trajectory = [(1, 0, 0, 0)], steering_angles = [],
         accelations = [], ref_index = 0\<rparr>
     = (\<lparr>current_state = (1, 0, 0, 0), trajectory = [(1, 0, 0, 0)], steering_angles = [],
         accelations = [], ref_index = 0\<rparr>, False)"
proof -
  let ?s = "\<lparr>current_state = (1, 0, 0, 0), trajectory = [(1, 0, 0, 0)], steering_angles = [],
             accelations = [], ref_index = 0\<rparr>"
  have i: "follow_init blocked_controller \<lparr>px = 1, py = 0, ptheta = 0\<rparr> [[0, 0, 0, 0], [1, 0, 0, 0]]
         = Inr ?s"
    by (simp add: follow_init_def blocked_controller_def Let_def)
  have g: "is_goal_reached blocked_controller (1, 0, 0, 0) (1, 0)"
    by (simp add: blocked_controller_def)
  then have l: "follow_loop (Suc 0) blocked_controller [[0, 0, 0, 0], [1, 0, 0, 0]] (1, 0) ?s = Some (Inr ?s)"
    by simp
  have d: "calculate_trajectory_distance blocked_controller [(1, 0, 0, 0)] = 0"
    by (simp add: blocked_controller_def)
  have h: "follow_trajectory (Suc 0) blocked_controller \<lparr>px = 1, py = 0, ptheta = 0\<rparr>
      [[0, 0, 0, 0], [1, 0, 0, 0]] (1, 0)
     = Some (Inr (True, 0, [(1, 0, 0, 0)], [], []))"
    using g d by (simp add: follow_trajectory_def i l final_adjustment_def del: follow_loop.simps)
  from follow_trajectory_reached [OF h] obtain st0 st where
    "follow_init blocked_controller \<lparr>px = 1, py = 0, ptheta = 0\<rparr> [[0, 0, 0, 0], [1, 0, 0, 0]] = Inr st0"
    "follow_loop (Suc 0) blocked_controller [[0, 0, 0, 0], [1, 0, 0, 0]] (1, 0) st0 = Some (Inr st)"
    "final_adjustment blocked_controller (1, 0) st = (st, False)"
    by blast
  with i l have "final_adjustment blocked_controller (1, 0) ?s = (?s, False)"
    by simp
  with h show ?thesis by simp
qed


section \<open>Controller: re-anchoring the reference index\<close>

lemma point_distances_length:
  "point_distances rows p = Inr ds \<Longrightarrow> length ds = length rows"
  by (induction rows arbitrary: ds) (auto split: sum.splits)

lemma argmin_from_bound: "i < k \<Longrightarrow> argmin_from i m k ds < k + length ds"
proof (induction ds arbitrary: i m k)
  case Nil
  then show ?case by simp
next
  case (Cons d ds)
  have "argmin_from k d (Suc k) ds < Suc k + length ds" by (rule Cons.IH) simp
  moreover have "argmin_from i m (Suc k) ds < Suc k + length ds"
    by (rule Cons.IH) (use Cons.prems in simp)
  ultimately show ?case by simp
qed

lemma argmin_bound: "argmin ds = Inr k \<Longrightarrow> k < length ds"
  using argmin_from_bound [of 0 1]
  by (cases ds) (auto simp: argmin_def)

lemma point_distances_nth:
  "point_distances rows p = Inr ds \<Longrightarrow> n < length rows \<Longrightarrow>
     point_distance (rows ! n) p = Inr (ds ! n)"
proof (induction rows arbitrary: ds n)
  case Nil
  then show ?case by simp
next
  case (Cons row rows)
  then show ?case by (cases n) (auto split: sum.splits)
qed

lemma argmin_from_least:
  assumes "i < length pre" "pre ! i = m" "\<forall>j<length pre. m \<le> pre ! j"
  shows "\<forall>j<length pre + length ds.
           (pre @ ds) ! argmin_from i m (length pre) ds \<le> (pre @ ds) ! j"
  using assms
proof (induction ds arbitrary: i m pre)
  case Nil
  then show ?case by simp
next
  case (Cons d ds)
  show ?case
  proof (cases "d < m")
    case True
    have "\<forall>j<length (pre @ [d]) + length ds.
            ((pre @ [d]) @ ds) ! argmin_from (length pre) d (length (pre @ [d])) ds
              \<le> ((pre @ [d]) @ ds) ! j"
    proof (rule Cons.IH)
      show "length pre < length (pre @ [d])" by simp
      show "(pre @ [d]) ! length pre = d" by simp
      show "\<forall>j<length (pre @ [d]). d \<le> (pre @ [d]) ! j"
        using True Cons.prems(3) by (auto simp: nth_append less_Suc_eq intro: order_trans less_imp_le)
    qed
    with True show ?thesis by simp
  next
    case False
    have "\<forall>j<length (pre @ [d]) + length ds.
            ((pre @ [d]) @ ds) ! argmin_from i m (length (pre @ [d])) ds
              \<le> ((pre @ [d]) @ ds) ! j"
    proof (rule Cons.IH)
      show "i < length (pre @ [d])" using Cons.prems(1) by simp
      show "(pre @ [d]) ! i = m" using Cons.prems(1,2) by (simp add: nth_append)
      show "\<forall>j<length (pre @ [d]). m \<le> (pre @ [d]) ! j"
        using False Cons.prems(3) by (auto simp: nth_append less_Suc_eq)
    qed
    with False show ?thesis by simp
  qed
qed

lemma argmin_least:
  assumes "argmin ds = Inr k"
  shows "\<forall>j<length ds. ds ! k \<le> ds ! j"
proof (cases ds)
  case Nil
  then show ?thesis by simp
next
  case (Cons d rest)
  with assms have k: "k = argmin_from 0 d 1 rest" by (simp add: argmin_def)
  have "\<forall>j<length [d] + length rest. ([d] @ rest) ! argmin_from 0 d (length [d]) rest \<le> ([d] @ rest) ! j"
    by (rule argmin_from_least) simp_all
  then show ?thesis using Cons k by simp
qed

lemma reanchor_window:
  assumes "reanchor ref s prev = Inr i"
  shows "max (prev - 10) 0 \<le> i \<and> i \<le> min (prev + 10) (int (length ref) - 1)"
    and "\<forall>j. max (prev - 10) 0 \<le> j \<and> j \<le> min (prev + 10) (int (length ref) - 1) \<longrightarrow>
           (\<exists>d dj. point_distance (ref ! nat i) (fst s, fst (snd s)) = Inr d
                  \<and> point_distance (ref ! nat j) (fst s, fst (snd s)) = Inr dj \<and> d \<le> dj)"
proof -
  let ?a = "max (prev - 10) 0" and ?b = "min (prev + 10) (int (length ref) - 1)"
  let ?rows = "map (\<lambda>i. ref ! nat i) [?a..?b]"
  from assms obtain ds k where
    d: "point_distances ?rows (fst s, fst (snd s)) = Inr ds"
    and k: "argmin ds = Inr k" and i: "i = [?a..?b] ! k"
    by (auto simp: reanchor_def Let_def split: sum.splits)
  have len: "length ds = length [?a..?b]" using point_distances_length [OF d] by simp
  from len argmin_bound [OF k] have kl: "k < length [?a..?b]" by simp
  then have kb: "?a + int k \<le> ?b" unfolding length_upto by linarith
  then have ik: "i = ?a + int k" unfolding i by (simp add: nth_upto)
  with kb show "?a \<le> i \<and> i \<le> ?b" by simp
  show "\<forall>j. ?a \<le> j \<and> j \<le> ?b \<longrightarrow>
           (\<exists>d dj. point_distance (ref ! nat i) (fst s, fst (snd s)) = Inr d
                  \<and> point_distance (ref ! nat j) (fst s, fst (snd s)) = Inr dj \<and> d \<le> dj)"
  proof (intro allI impI)
    fix j assume j: "?a \<le> j \<and> j \<le> ?b"
    define n where "n = nat (j - ?a)"
    have nl: "n < length [?a..?b]" unfolding length_upto n_def using j by linarith
    have jn: "[?a..?b] ! n = j" using j by (simp add: nth_upto n_def)
    have "point_distance (?rows ! k) (fst s, fst (snd s)) = Inr (ds ! k)"
      by (rule point_distances_nth [OF d]) (use kl in simp)
    then have 1: "point_distance (ref ! nat i) (fst s, fst (snd s)) = Inr (ds ! k)"
      using kl i by simp
    have "point_distance (?rows ! n) (fst s, fst (snd s)) = Inr (ds ! n)"
      by (rule point_distances_nth [OF d]) (use nl in simp)
    then have 2: "point_distance (ref ! nat j) (fst s, fst (snd s)) = Inr (ds ! n)"
      using nl jn by simp
    have "ds ! k \<le> ds ! n" using argmin_least [OF k] nl len by simp
    with 1 2 show "\<exists>d dj. point_distance (ref ! nat i) (fst s, fst (snd s)) = Inr d
                  \<and> point_distance (ref ! nat j) (fst s, fst (snd s)) = Inr dj \<and> d \<le> dj"
      by blast
  qed
qed

text \<open>
  Claim C7, as amended. In every pass of the loop of \<open>follow_trajectory\<close> that completes,
  the new reference index lies within \<open>window_size = 10\<close> of the previous one, clipped to
  the indices of the reference, and its point is a nearest one to the vehicle among the
  points of that window. The window reaches back as well as ahead.
\<close>

theorem ref_index_stays_in_window:
  assumes "follow_step M ref st = Inr st'"
  shows "max (ref_index st - 10) 0 \<le> ref_index st'
         \<and> ref_index st' \<le> min (ref_index st + 10) (int (length ref) - 1)
         \<and> (\<forall>j. max (ref_index st - 10) 0 \<le> j \<and> j \<le> min (ref_index st + 10) (int (length ref) - 1) \<longrightarrow>
               (\<exists>d dj. point_distance (ref ! nat (ref_index st'))
                              (fst (current_state st), fst (snd (current_state st))) = Inr d
                      \<and> point_distance (ref ! nat j)
                              (fst (current_state st), fst (snd (current_state st))) = Inr dj
                      \<and> d \<le> dj))"
proof -
  from assms obtain i where "reanchor ref (current_state st) (ref_index st) = Inr i"
    and "ref_index st' = i"
    by (auto simp: follow_step_def Let_def split: sum.splits prod.splits)
  with reanchor_window [of ref "current_state st" "ref_index st" i] show ?thesis by blast
qed

lemma blocked_step:
  assumes "reanchor ref (current_state st) (ref_index st) = Inr i" "0 \<le> i" "i < int (length ref)"
  shows "follow_step blocked_controller ref st
           = Inr \<lparr>current_state = apply_control blocked_controller (current_state st) (1 / 2, 0),
                  trajectory = trajectory st @ [apply_control blocked_controller (current_state st) (1 / 2, 0)],
                  steering_angles = steering_angles st @ [0],
                  accelations = accelations st @ [1 / 2],
                  ref_index = i\<rparr>"
proof -
  have h: "horizon blocked_controller = 1" by (simp add: blocked_controller_def)
  have "nat i < length ref" using assms(2,3) by simp
  then have "take (Suc 0) (drop (nat i) ref) = [ref ! nat i]"
    by (simp flip: Cons_nth_drop_Suc)
  then have "py_slice ref i (min (i + 1) (int (length ref) - 1 + 1)) = [ref ! nat i]"
    using assms(2,3) by (simp add: py_slice_def Let_def min_def)
  then have seg: "ref_segment_at blocked_controller ref i = Inr [ref ! nat i]"
    by (simp add: ref_segment_at_def h Let_def)
  have "all_collide blocked_controller (current_state st) [ref ! nat i]"
    by (rule blocked_all_collide) simp
  from optimize_control_all_collide(1) [OF this] show ?thesis
    by (simp add: follow_step_def assms(1) seg h Let_def)
qed


lemma blocked_apply:
  "apply_control blocked_controller (x, y, 0, v) (1 / 2, 0) = (x + v, y, 0, v + 1 / 2)"
  by (simp add: blocked_controller_def)

lemma reanchor_two_rows:
  "reanchor [[3, 0, 0, 0], [1, 0, 0, 0]] (x, 0, th, v) 0
     = Inr (if \<bar>1 - x\<bar> < \<bar>3 - x\<bar> then 1 else 0)"
  "reanchor [[3, 0, 0, 0], [1, 0, 0, 0]] (x, 0, th, v) 1
     = Inr (if \<bar>1 - x\<bar> < \<bar>3 - x\<bar> then 1 else 0)"
  by (simp_all add: reanchor_def Let_def upto.simps argmin_def abs_le_square_iff
      abs_less_iff power2_eq_square flip: power2_eq_square) 


lemma blocked_step_two_rows:
  assumes "ref_index st = 0 \<or> ref_index st = 1" "current_state st = (x, 0, 0, v)"
  shows "follow_step blocked_controller [[3, 0, 0, 0], [1, 0, 0, 0]] st
           = Inr \<lparr>current_state = (x + v, 0, 0, v + 1 / 2),
                  trajectory = trajectory st @ [(x + v, 0, 0, v + 1 / 2)],
                  steering_angles = steering_angles st @ [0],
                  accelations = accelations st @ [1 / 2],
                  ref_index = (if \<bar>1 - x\<bar> < \<bar>3 - x\<bar> then 1 else 0)\<rparr>"
proof -
  have r: "reanchor [[3, 0, 0, 0], [1, 0, 0, 0]] (current_state st) (ref_index st)
             = Inr (if \<bar>1 - x\<bar> < \<bar>3 - x\<bar> then 1 else 0)"
    using assms reanchor_two_rows [of x 0 v] by auto
  show ?thesis
    using blocked_step [OF r] by (simp add: assms(2) blocked_apply)
qed

lemma blocked_step_explicit:
  assumes "k = 0 \<or> k = 1"
  shows "follow_step blocked_controller [[3, 0, 0, 0], [1, 0, 0, 0]]
           \<lparr>current_state = (x, 0, 0, v), trajectory = t, steering_angles = sa,
            accelations = ac, ref_index = k\<rparr>
           = Inr \<lparr>current_state = (x + v, 0, 0, v + 1 / 2),
                  trajectory = t @ [(x + v, 0, 0, v + 1 / 2)],
                  steering_angles = sa @ [0],
                  accelations = ac @ [1 / 2],
                  ref_index = (if \<bar>1 - x\<bar> < \<bar>3 - x\<bar> then 1 else 0)\<rparr>"
  using blocked_step_two_rows [of "\<lparr>current_state = (x, 0, 0, v), trajectory = t, steering_angles = sa,
            accelations = ac, ref_index = k\<rparr>" x v] assms by simp

lemma blocked_far_goal:
  "is_goal_reached blocked_controller (x, 0, th, v) (100, 0) \<longleftrightarrow> \<bar>x - 100\<bar> < 1 / 2"
  by (simp add: blocked_controller_def hypot_zero_right)

text \<open>
  The claim as stated fails: the index can regress. On the reference \<open>(3, 0), (1, 0)\<close>, a
  vehicle that starts at the origin, finds every rollout in collision and so drives
  straight on with the default control has the index \<open>1\<close> at the start of its pass number
  \<open>4\<close> and the index \<open>0\<close> at the start of the next one.
\<close>

theorem ref_index_regresses_counterexample:
  "follow_init blocked_controller \<lparr>px = 0, py = 0, ptheta = 0\<rparr> [[3, 0, 0, 0], [1, 0, 0, 0]]
     = Inr \<lparr>current_state = (0, 0, 0, 0), trajectory = [(0, 0, 0, 0)], steering_angles = [],
            accelations = [], ref_index = 0\<rparr>
   \<and> map_option (map_sum id ref_index)
       (follow_pass 4 blocked_controller [[3, 0, 0, 0], [1, 0, 0, 0]] (100, 0)
          \<lparr>current_state = (0, 0, 0, 0), trajectory = [(0, 0, 0, 0)], steering_angles = [],
           accelations = [], ref_index = 0\<rparr>)
     = Some (Inr 1)
   \<and> map_option (map_sum id ref_index)
       (follow_pass 5 blocked_controller [[3, 0, 0, 0], [1, 0, 0, 0]] (100, 0)
          \<lparr>current_state = (0, 0, 0, 0), trajectory = [(0, 0, 0, 0)], steering_angles = [],
           accelations = [], ref_index = 0\<rparr>)
     = Some (Inr 0)"
proof -
  have i: "follow_init blocked_controller \<lparr>px = 0, py = 0, ptheta = 0\<rparr> [[3, 0, 0, 0], [1, 0, 0, 0]]
     = Inr \<lparr>current_state = (0, 0, 0, 0), trajectory = [(0, 0, 0, 0)], steering_angles = [],
            accelations = [], ref_index = 0\<rparr>"
    by (simp add: follow_init_def Let_def) (simp add: blocked_controller_def atan2_def)
  show ?thesis
    by (simp add: i eval_nat_numeral blocked_step_explicit blocked_far_goal)
qed

theorem ref_index_stays_in_window_witness:
  "follow_step blocked_controller [[3, 0, 0, 0], [1, 0, 0, 0]]
      \<lparr>current_state = (3, 0, 0, 2), trajectory = [(3, 0, 0, 2)], steering_angles = [],
       accelations = [], ref_index = 1\<rparr>
     = Inr \<lparr>current_state = (5, 0, 0, 5 / 2), trajectory = [(3, 0, 0, 2), (5, 0, 0, 5 / 2)],
            steering_angles = [0], accelations = [1 / 2], ref_index = 0\<rparr>
   \<and> max (1 - 10) 0 \<le> (0::int) \<and> (0::int) \<le> min (1 + 10) (int (length [[3, 0, 0, 0], [1, 0, 0, 0::real]]) - 1)"
proof -
  have s: "follow_step blocked_controller [[3, 0, 0, 0], [1, 0, 0, 0]]
      \<lparr>current_state = (3, 0, 0, 2), trajectory = [(3, 0, 0, 2)], steering_angles = [],
       accelations = [], ref_index = 1\<rparr>
     = Inr \<lparr>current_state = (5, 0, 0, 5 / 2), trajectory = [(3, 0, 0, 2), (5, 0, 0, 5 / 2)],
            steering_angles = [0], accelations = [1 / 2], ref_index = 0\<rparr>"
    by (simp add: blocked_step_explicit)
  from ref_index_stays_in_window [OF s] show ?thesis using s by simp
qed


section \<open>Hybrid grid search planner: the result of the search\<close>



lemma crossed_in_bounds:
  "is_not_crossed_obstacle m p c \<Longrightarrow>
     0 < fst c \<and> fst c < lot_width m \<and> 0 < snd c \<and> snd c < lot_height m"
  by (simp add: is_not_crossed_obstacle_def Let_def)


lemma in_bounds_key_pos:
  "is_not_crossed_obstacle m p (x, y) \<Longrightarrow> 0 < get_grid_index m x y"
proof -
  assume a: "is_not_crossed_obstacle m p (x, y)"
  from crossed_in_bounds [OF a] have b: "0 < x" "x < lot_width m" "0 < y" by simp_all
  then have "0 < y * lot_width m" by (intro mult_pos_pos) simp_all
  with b show ?thesis unfolding get_grid_index_def by linarith
qed




















lemma search_loop_step:
  assumes "open_set = first # others"
    and "min_entry (\<lambda>(k, n). hcost n + calculate_heuristic_cost P n) first others = (idx, cur)"
  shows "search_loop route_fuel (Suc fuel) P open_set closed_set =
           (if calculate_distance_to_end P (hpose cur) \<le> 1
            then (case process_route route_fuel cur closed_set of
                    None \<Rightarrow> None
                  | Some (Inl e) \<Rightarrow> Some (Inl e)
                  | Some (Inr (rx, ry)) \<Rightarrow>
                      Some (Inr (True, route_distance P (transform_trajectory P rx ry),
                                 transform_trajectory P rx ry)))
            else search_loop route_fuel fuel P
                   (foldl (relax_node P cur (AList.update idx cur closed_set))
                          (AList.delete idx open_set) (next_nodes cur idx))
                   (AList.update idx cur closed_set))"
  using assms by (simp add: Let_def split: option.splits sum.splits prod.splits)














lemma py_round_int [simp]: "py_round (of_int n) = n"
  by (simp add: py_round_def)


text \<open>
  The failure exit on a map that admits no cell: the start node is taken from the open
  set, no successor enters it, and the search returns the failure triple.
\<close>

lemma narrow_map_admits_nothing:
  "lot_width m \<le> 1 \<Longrightarrow> \<not> is_not_crossed_obstacle m p c"
  by (auto simp: is_not_crossed_obstacle_def Let_def)

lemma relax_nothing:
  assumes "lot_width (grid_map P) \<le> 1"
  shows "foldl (relax_node P cur closed_set) open_set ns = open_set"
  by (induction ns) (simp_all add: relax_node_def narrow_map_admits_nothing [OF assms])

lemma search_route_fails_without_cells:
  assumes "lot_width (grid_map P) \<le> 1"
    and "1 < calculate_distance_to_end P (hpose (start_node P))"
  shows "search_route (Suc (Suc fuel)) P = Some (Inr (False, 0, []))"
proof -
  have m: "min_entry (\<lambda>(k, n). hcost n + calculate_heuristic_cost P n) (start_index P, start_node P) []
             = (start_index P, start_node P)"
    by simp
  have "search_loop (Suc (Suc fuel)) (Suc (Suc fuel)) P [(start_index P, start_node P)] []
          = search_loop (Suc (Suc fuel)) (Suc fuel) P [] [(start_index P, start_node P)]"
    unfolding search_loop_step [OF refl m] using assms(2)
    by (simp add: relax_nothing [OF assms(1)])
  then show ?thesis by (simp add: search_route_def start_index_def)
qed

text \<open>
  More fuel does not change what the search returns: the fuel only bounds the passes of
  the two loops.
\<close>

lemma process_route_loop_mono:
  "process_route_loop fuel closed_set parent rx ry = Some r \<Longrightarrow> fuel \<le> fuel' \<Longrightarrow>
     process_route_loop fuel' closed_set parent rx ry = Some r"
proof (induction fuel arbitrary: fuel' parent rx ry)
  case 0
  then show ?case by simp
next
  case (Suc fuel)
  from Suc.prems(2) obtain f where f: "fuel' = Suc f" "fuel \<le> f" by (cases fuel') auto
  show ?case
  proof (cases "parent \<noteq> - 1")
    case False
    with Suc.prems(1) f show ?thesis by simp
  next
    case True
    show ?thesis
    proof (cases "map_of closed_set parent")
      case None
      with True Suc.prems(1) f show ?thesis by simp
    next
      case (Some n)
      with True Suc.prems(1) have
        "process_route_loop fuel closed_set (parent_node_index n)
           (rx @ [px (hpose n)]) (ry @ [py (hpose n)]) = Some r"
        by simp
      from Suc.IH [OF this f(2)] True Some f(1) show ?thesis by simp
    qed
  qed
qed

lemma search_loop_mono:
  "search_loop route_fuel fuel P open_set closed_set = Some r \<Longrightarrow>
     fuel \<le> fuel' \<Longrightarrow> route_fuel \<le> route_fuel' \<Longrightarrow>
     search_loop route_fuel' fuel' P open_set closed_set = Some r"
proof (induction fuel arbitrary: fuel' open_set closed_set)
  case 0
  then show ?case by simp
next
  case (Suc fuel)
  from Suc.prems(2) obtain f where f: "fuel' = Suc f" "fuel \<le> f" by (cases fuel') auto
  show ?case
  proof (cases open_set)
    case Nil
    with Suc.prems(1) f show ?thesis by simp
  next
    case (Cons first others)
    obtain idx cur where m: "min_entry (\<lambda>(k, n). hcost n + calculate_heuristic_cost P n) first others
                               = (idx, cur)"
      by (cases "min_entry (\<lambda>(k, n). hcost n + calculate_heuristic_cost P n) first others")
    show ?thesis
    proof (cases "calculate_distance_to_end P (hpose cur) \<le> 1")
      case True
      from Suc.prems(1) True obtain q where q: "process_route route_fuel cur closed_set = Some q"
        unfolding search_loop_step [OF Cons m] by (auto split: option.splits)
      then have "process_route route_fuel' cur closed_set = Some q"
        unfolding process_route_def using Suc.prems(3) by (rule process_route_loop_mono)
      with Suc.prems(1) True q show ?thesis
        unfolding f(1) search_loop_step [OF Cons m] by simp
    next
      case False
      with Suc.prems(1) have
        "search_loop route_fuel fuel P
           (foldl (relax_node P cur (AList.update idx cur closed_set))
                  (AList.delete idx open_set) (next_nodes cur idx))
           (AList.update idx cur closed_set) = Some r"
        unfolding search_loop_step [OF Cons m] by simp
      from Suc.IH [OF this f(2) Suc.prems(3)] False show ?thesis
        unfolding f(1) search_loop_step [OF Cons m] by simp
    qed
  qed
qed

lemma search_route_fuel_independent:
  "search_route fuel P = Some r \<Longrightarrow> fuel \<le> fuel' \<Longrightarrow> search_route fuel' P = Some r"
  unfolding search_route_def by (rule search_loop_mono)

end
